theory Spec2Isabelle
  imports Main "HOL-Library.Word"
begin

section \<open>Data model\<close>

text \<open>
  The image objects that \<^verbatim>\<open>cmd/umoci/repack.go\<close> and \<^verbatim>\<open>cmd/umoci/insert.go\<close>
  handle: descriptors, manifests, configurations (with their history), and the store
  of digest-keyed blobs and named references behind the CAS engine.
\<close>

type_synonym time = int

text \<open>The media types of image-spec \<^verbatim>\<open>v1\<close>; the program only compares them.\<close>

definition MediaTypeImageManifest :: string where
  "MediaTypeImageManifest = ''application/vnd.oci.image.manifest.v1+json''"

definition MediaTypeImageConfig :: string where
  "MediaTypeImageConfig = ''application/vnd.oci.image.config.v1+json''"

definition MediaTypeImageLayer :: string where
  "MediaTypeImageLayer = ''application/vnd.oci.image.layer.v1.tar+gzip''"

record descriptor =
  MediaType :: string
  Digest :: string
  Size :: "64 word"

record history =
  Created :: "time option"
  CreatedBy :: string
  Author :: string
  Comment :: string
  EmptyLayer :: bool

record image =
  DiffIDs :: "string list"
  History :: "history list"
  Opaque :: string

record manifest =
  Config :: descriptor
  Layers :: "descriptor list"

text \<open>
  A stored blob. Serialisation to canonical JSON is not part of the two commands, so a
  JSON blob is kept as the object it encodes; a layer is its bytes.
\<close>

datatype blob =
    LayerBlob string
  | ConfigJSON image
  | ManifestJSON manifest

record store =
  blobs :: "string \<rightharpoonup> blob"
  refs :: "string \<rightharpoonup> descriptor"

datatype error =
    Errorf string
  | Wrap error string
  | NotFound string
  | UnsupportedMediaType string
  | DecodeError string
  | InvalidState
  | IOError string
  | Panic string

text \<open>
  A call that reaches the CAS engine or the mutator, with its arguments. Every
  operation returns, beside its result and the store it leaves, the calls it made
  in the order in which it made them.
\<close>

datatype call =
    OpenCall string
  | CloseCall
  | GetReferenceCall string
  | ResolveReferenceCall string
  | PutBlobCall string
  | PutBlobJSONCall blob
  | FromDescriptorCall descriptor
  | DeleteReferenceCall string
  | PutReferenceCall string descriptor
  | UpdateReferenceCall string descriptor
  | MutatorNewCall "descriptor list"
  | MutatorAddCall string history
  | MutatorCommitCall

type_synonym mtree_spec = "string list"
type_synonym mtree_keywords = "string list"
type_synonym mtree_diffs = "string list"
type_synonym map_options = "string list"

text \<open>
  What the commands receive from outside: the I/O failure (if any) that a call meets,
  the content hash, and the collaborators that are not part of the repository
  (go-mtree, the tar generators, the clock, \<^verbatim>\<open>time.Parse\<close>).
\<close>

record env =
  io_error :: "call \<Rightarrow> error option"
  digest_of :: "blob \<Rightarrow> string"
  size_of :: "blob \<Rightarrow> 64 word"
  compress :: "string \<Rightarrow> string"
  failed_put :: "string \<times> 64 word"
  os_Open :: "string \<Rightarrow> error + string"
  ParseSpec :: "string \<Rightarrow> error + mtree_spec"
  CollectUsedKeywords :: "mtree_spec \<Rightarrow> mtree_keywords"
  Check :: "string \<Rightarrow> mtree_spec \<Rightarrow> mtree_keywords \<Rightarrow> error + mtree_diffs"
  GenerateLayer :: "string \<Rightarrow> mtree_diffs \<Rightarrow> error + string"
  generator_error :: "image \<Rightarrow> error option"
  resolve :: "store \<Rightarrow> string \<Rightarrow> descriptor list list"
  parseIdmapOptions :: "(string \<rightharpoonup> string) \<Rightarrow> error + map_options"
  GenerateInsertLayer :: "string \<Rightarrow> string \<Rightarrow> map_options \<Rightarrow> string"
  now :: time
  time_Parse :: "string \<Rightarrow> error + time"

record cli_Context =
  flags :: "string \<Rightarrow> string"
  Metadata :: "string \<rightharpoonup> string"

section \<open>Sequencing with errors and state\<close>

type_synonym 'a prog = "store \<Rightarrow> (error + 'a) \<times> store \<times> call list"

definition returnE :: "'a \<Rightarrow> 'a prog" where
  "returnE x = (\<lambda>s. (Inr x, s, []))"

definition throwE :: "error \<Rightarrow> 'a prog" where
  "throwE e = (\<lambda>s. (Inl e, s, []))"

definition liftE :: "error + 'a \<Rightarrow> 'a prog" where
  "liftE r = (\<lambda>s. (r, s, []))"

definition bindE :: "'a prog \<Rightarrow> ('a \<Rightarrow> 'b prog) \<Rightarrow> 'b prog" where
  "bindE m f =
     (\<lambda>s. case m s of
        (Inl e, s', t) \<Rightarrow> (Inl e, s', t)
      | (Inr x, s', t) \<Rightarrow> (case f x s' of (r, s'', t') \<Rightarrow> (r, s'', t @ t')))"

text \<open>\<^verbatim>\<open>errors.Wrap(err, msg)\<close> on the error branch of a call.\<close>

definition wrapE :: "string \<Rightarrow> 'a prog \<Rightarrow> 'a prog" where
  "wrapE msg m =
     (\<lambda>s. case m s of
        (Inl e, s', t) \<Rightarrow> (Inl (Wrap e msg), s', t)
      | (Inr x, s', t) \<Rightarrow> (Inr x, s', t))"

text \<open>
  A call whose error is assigned and never examined: execution goes on with the values
  the call returned, which on failure are the ones given as \<open>d\<close>.
\<close>

definition uncheckedE :: "'a prog \<Rightarrow> 'a \<Rightarrow> ('a \<Rightarrow> 'b prog) \<Rightarrow> 'b prog" where
  "uncheckedE m d f =
     (\<lambda>s. case m s of
        (r, s', t) \<Rightarrow>
          (case f (case r of Inl e \<Rightarrow> d | Inr x \<Rightarrow> x) s' of
             (r', s'', t') \<Rightarrow> (r', s'', t @ t')))"

text \<open>\<^verbatim>\<open>defer c()\<close>: \<open>c\<close> runs on every exit of the body, its result dropped.\<close>

definition deferE :: "'c prog \<Rightarrow> 'a prog \<Rightarrow> 'a prog" where
  "deferE c m =
     (\<lambda>s. case m s of
        (r, s', t) \<Rightarrow> (case c s' of (r', s'', t') \<Rightarrow> (r, s'', t @ t')))"

text \<open>The three components of a run: what is returned, the store left, the calls made.\<close>

definition returned :: "(error + 'a) \<times> store \<times> call list \<Rightarrow> error + 'a" where
  "returned x = fst x"

definition final :: "(error + 'a) \<times> store \<times> call list \<Rightarrow> store" where
  "final x = fst (snd x)"

definition calls :: "(error + 'a) \<times> store \<times> call list \<Rightarrow> call list" where
  "calls x = snd (snd x)"

section \<open>The CAS engine\<close>

text \<open>
  The packages \<^verbatim>\<open>image/cas\<close>, \<^verbatim>\<open>oci/cas/dir\<close> and \<^verbatim>\<open>oci/casext\<close> are not among
  the sources; their operations follow the contracts of the Blob Store, the Reference
  Store and the CAS Engine. A call is logged and meets the I/O failure the environment
  holds for it, in which case it returns the error and leaves the store as it was.
\<close>

definition engine_call :: "env \<Rightarrow> call \<Rightarrow> (store \<Rightarrow> (error + 'a) \<times> store) \<Rightarrow> 'a prog" where
  "engine_call env c f =
     (\<lambda>s. case io_error env c of
        Some e \<Rightarrow> (Inl e, s, [c])
      | None \<Rightarrow> (case f s of (r, s') \<Rightarrow> (r, s', [c])))"

text \<open>
  Modelled from the spec: the Blob Store's \<^verbatim>\<open>Put\<close> is not among the sources. It
  computes the digest and stores the bytes under it; if the destination already exists
  the write is skipped.
\<close>

definition put :: "env \<Rightarrow> blob \<Rightarrow> store \<Rightarrow> (error + string \<times> 64 word) \<times> store" where
  "put env b s =
     (let dg = digest_of env b in
      (Inr (dg, size_of env b),
       (case blobs s dg of
          Some old \<Rightarrow> s
        | None \<Rightarrow> s\<lparr>blobs := (blobs s)(dg \<mapsto> b)\<rparr>)))"

text \<open>
  Modelled from the spec: \<^verbatim>\<open>cas.Open\<close> and \<^verbatim>\<open>dir.Open\<close> are not among the sources.
  They acquire the handle of the store under the image path.
\<close>

definition cas_Open :: "env \<Rightarrow> string \<Rightarrow> unit prog" where
  "cas_Open env imagePath = engine_call env (OpenCall imagePath) (\<lambda>s. (Inr (), s))"

text \<open>
  Modelled from the spec: \<^verbatim>\<open>Close\<close> is not among the sources. It releases the handle.
\<close>

definition Close :: "env \<Rightarrow> unit prog" where
  "Close env = engine_call env CloseCall (\<lambda>s. (Inr (), s))"

text \<open>
  Modelled from the spec: \<^verbatim>\<open>GetReference\<close> is not among the sources. It is the
  Reference Store's \<^verbatim>\<open>Get\<close>, which fails with \<open>NotFound\<close> if the name is absent.
\<close>

definition GetReference :: "env \<Rightarrow> string \<Rightarrow> descriptor prog" where
  "GetReference env name =
     engine_call env (GetReferenceCall name)
       (\<lambda>s. (case refs s name of None \<Rightarrow> Inl (NotFound name) | Some d \<Rightarrow> Inr d, s))"

text \<open>
  Modelled from the spec: \<^verbatim>\<open>PutBlob\<close> is not among the sources. It puts the bytes of
  the stream and returns their digest and size.
\<close>

definition PutBlob :: "env \<Rightarrow> string \<Rightarrow> (string \<times> 64 word) prog" where
  "PutBlob env reader = engine_call env (PutBlobCall reader) (put env (LayerBlob reader))"

text \<open>
  Modelled from the spec: \<^verbatim>\<open>PutBlobJSON\<close> is not among the sources. It serialises the
  object and puts it.
\<close>

definition PutBlobJSON :: "env \<Rightarrow> blob \<Rightarrow> (string \<times> 64 word) prog" where
  "PutBlobJSON env obj = engine_call env (PutBlobJSONCall obj) (put env obj)"

record cas_Blob =
  BlobMediaType :: string
  Data :: blob

text \<open>
  Modelled from the spec: the typed decoding behind \<^verbatim>\<open>FromDescriptor\<close> is not among
  the sources. It dispatches on the media type to decode a manifest, a configuration
  or a raw layer stream, and fails with \<open>UnsupportedMediaType\<close> on any other type.
\<close>

definition decode :: "descriptor \<Rightarrow> blob \<Rightarrow> error + cas_Blob" where
  "decode d b =
     (if MediaType d = MediaTypeImageManifest then
        (case b of
           ManifestJSON m \<Rightarrow> Inr \<lparr>BlobMediaType = MediaType d, Data = b\<rparr>
         | _ \<Rightarrow> Inl (DecodeError (Digest d)))
      else if MediaType d = MediaTypeImageConfig then
        (case b of
           ConfigJSON c \<Rightarrow> Inr \<lparr>BlobMediaType = MediaType d, Data = b\<rparr>
         | _ \<Rightarrow> Inl (DecodeError (Digest d)))
      else if MediaType d = MediaTypeImageLayer then
        Inr \<lparr>BlobMediaType = MediaType d, Data = b\<rparr>
      else Inl (UnsupportedMediaType (MediaType d)))"

text \<open>
  Modelled from the spec: \<^verbatim>\<open>FromDescriptor\<close> is not among the sources. It gets the
  blob of the descriptor's digest, \<open>NotFound\<close> if absent, and decodes it.
\<close>

definition FromDescriptor :: "env \<Rightarrow> descriptor \<Rightarrow> cas_Blob prog" where
  "FromDescriptor env d =
     engine_call env (FromDescriptorCall d)
       (\<lambda>s. (case blobs s (Digest d) of
                None \<Rightarrow> Inl (NotFound (Digest d))
              | Some b \<Rightarrow> decode d b, s))"

text \<open>
  Modelled from the spec: \<^verbatim>\<open>DeleteReference\<close> is not among the sources. It is the
  Reference Store's \<^verbatim>\<open>Delete\<close>: it removes the name, and absence is not an error.
\<close>

definition DeleteReference :: "env \<Rightarrow> string \<Rightarrow> unit prog" where
  "DeleteReference env name =
     engine_call env (DeleteReferenceCall name)
       (\<lambda>s. (Inr (), s\<lparr>refs := (refs s)(name := None)\<rparr>))"

text \<open>
  Modelled from the spec: \<^verbatim>\<open>PutReference\<close> is not among the sources. It is the
  Reference Store's \<^verbatim>\<open>Put\<close>: it atomically creates or replaces the name.
\<close>

definition PutReference :: "env \<Rightarrow> string \<Rightarrow> descriptor \<Rightarrow> unit prog" where
  "PutReference env name d =
     engine_call env (PutReferenceCall name d)
       (\<lambda>s. (Inr (), s\<lparr>refs := (refs s)(name \<mapsto> d)\<rparr>))"

text \<open>
  Modelled from the spec: \<^verbatim>\<open>UpdateReference\<close> is not among the sources. It repoints
  the name with one atomic create-or-replace.
\<close>

definition UpdateReference :: "env \<Rightarrow> string \<Rightarrow> descriptor \<Rightarrow> unit prog" where
  "UpdateReference env name d =
     engine_call env (UpdateReferenceCall name d)
       (\<lambda>s. (Inr (), s\<lparr>refs := (refs s)(name \<mapsto> d)\<rparr>))"

text \<open>
  \<^verbatim>\<open>ResolveReference\<close> is not among the sources: the descriptor paths that a name
  designates in a store are given by the environment.
\<close>

definition ResolveReference :: "env \<Rightarrow> string \<Rightarrow> descriptor list list prog" where
  "ResolveReference env name =
     engine_call env (ResolveReferenceCall name) (\<lambda>s. (Inr (resolve env s name), s))"

section \<open>The configuration generator\<close>

text \<open>
  Modelled from the spec: the package \<^verbatim>\<open>image/generator\<close> is not among the sources.
  A generator is a working copy of the configuration; whether \<^verbatim>\<open>NewFromImage\<close>
  rejects a configuration is given by the environment.
\<close>

definition NewFromImage :: "env \<Rightarrow> image \<Rightarrow> image prog" where
  "NewFromImage env config =
     (case generator_error env config of Some e \<Rightarrow> throwE e | None \<Rightarrow> returnE config)"

text \<open>
  Modelled from the spec: \<^verbatim>\<open>AddRootfsDiffID\<close> is not among the sources. It appends
  to the ordered sequence of diffIDs (``Append our new layer to the set of DiffIDs'',
  repack.go line 188) and touches nothing else.
\<close>

definition AddRootfsDiffID :: "string \<Rightarrow> image \<Rightarrow> image" where
  "AddRootfsDiffID d g = g\<lparr>DiffIDs := DiffIDs g @ [d]\<rparr>"

text \<open>
  Modelled from the spec: the generator's \<^verbatim>\<open>Image\<close> is not among the sources. It
  returns the working copy.
\<close>

definition generator_Image :: "image \<Rightarrow> image" where
  "generator_Image g = g"

section \<open>repack\<close>

text \<open>\<^verbatim>\<open>ctx.String(name)\<close>: the value of a flag, the empty string when it is not set.\<close>

definition String :: "cli_Context \<Rightarrow> string \<Rightarrow> string" where
  "String ctx name = flags ctx name"

text \<open>The constant \<^verbatim>\<open>rootfsName\<close> of package main, declared beside the unpack command.\<close>

definition rootfsName :: string where
  "rootfsName = ''rootfs''"

text \<open>\<^verbatim>\<open>filepath.Join\<close> of two elements; the paths are only handed on to the collaborators.\<close>

definition filepath_Join :: "string \<Rightarrow> string \<Rightarrow> string" where
  "filepath_Join a b = a @ ''/'' @ b"

text \<open>
  \<^verbatim>\<open>repack\<close> (repack.go lines 72 to 237), statement by statement. The error of the
  second \<^verbatim>\<open>PutBlobJSON\<close> (line 203) is assigned and not examined. Closing the mtree file,
  the layer reader and the two decoded blobs does not reach the store and is left out;
  \<^verbatim>\<open>defer engine.Close()\<close> is kept.
\<close>

definition repack :: "env \<Rightarrow> cli_Context \<Rightarrow> unit prog" where
  "repack env ctx =
    (let imagePath = String ctx ''image'' in
     if imagePath = [] then throwE (Errorf ''image path cannot be empty'') else
     let bundlePath = String ctx ''bundle'' in
     if bundlePath = [] then throwE (Errorf ''bundle path cannot be empty'') else
     let fromName = String ctx ''from'' in
     if fromName = [] then throwE (Errorf ''reference name cannot be empty'') else
     bindE (cas_Open env imagePath) (\<lambda>engine.
     deferE (Close env)
    (bindE (GetReference env fromName) (\<lambda>fromDescriptor.
     if MediaType fromDescriptor \<noteq> MediaTypeImageManifest then
       throwE (Errorf (''--from descriptor does not point to v1.MediaTypeImageManifest: not implemented: ''
                        @ MediaType fromDescriptor))
     else
     let mtreePath = filepath_Join bundlePath (Digest fromDescriptor @ ''.mtree'');
         fullRootfsPath = filepath_Join bundlePath rootfsName in
     bindE (liftE (os_Open env mtreePath)) (\<lambda>mfh.
     bindE (liftE (ParseSpec env mfh)) (\<lambda>spec.
     let keywords = CollectUsedKeywords env spec in
     bindE (liftE (Check env fullRootfsPath spec keywords)) (\<lambda>diffs.
     bindE (liftE (GenerateLayer env fullRootfsPath diffs)) (\<lambda>reader.
     bindE (PutBlob env reader) (\<lambda>(layerDigest, layerSize).
     let layerDescriptor =
           \<lparr>MediaType = MediaTypeImageLayer, Digest = layerDigest, Size = layerSize\<rparr> in
     bindE (FromDescriptor env fromDescriptor) (\<lambda>manifestBlob.
     case Data manifestBlob of
       ManifestJSON manifest \<Rightarrow>
         bindE (FromDescriptor env (Config manifest)) (\<lambda>configBlob.
         case Data configBlob of
           ConfigJSON config \<Rightarrow>
             bindE (NewFromImage env config) (\<lambda>g.
             let g = AddRootfsDiffID layerDigest g;
                 config = generator_Image g in
             bindE (PutBlobJSON env (ConfigJSON config)) (\<lambda>(newConfigDigest, newConfigSize).
             let manifest = manifest\<lparr>Layers := Layers manifest @ [layerDescriptor]\<rparr>;
                 manifest = manifest\<lparr>Config := (Config manifest)\<lparr>Digest := newConfigDigest\<rparr>\<rparr>;
                 manifest = manifest\<lparr>Config := (Config manifest)\<lparr>Size := newConfigSize\<rparr>\<rparr> in
             uncheckedE (PutBlobJSON env (ManifestJSON manifest)) (failed_put env)
               (\<lambda>(newManifestDigest, newManifestSize).
             let newDescriptor =
                   \<lparr>MediaType = MediaTypeImageManifest, Digest = newManifestDigest,
                    Size = newManifestSize\<rparr>;
                 tagName = String ctx ''tag'' in
             if tagName = [] then returnE () else
             bindE (DeleteReference env tagName) (\<lambda>_.
             bindE (PutReference env tagName newDescriptor) (\<lambda>_.
             returnE ())))))
         | _ \<Rightarrow> throwE (Errorf (''config blob type not implemented: '' @ BlobMediaType configBlob)))
     | _ \<Rightarrow> throwE (Errorf (''manifest blob type not implemented: ''
                              @ BlobMediaType manifestBlob))))))))))))"

section \<open>The image mutator\<close>

record Mutator =
  base :: "descriptor list"
  m_manifest :: manifest
  m_config :: image
  pending :: "string list"

text \<open>
  Modelled from the spec: \<^verbatim>\<open>mutate.New\<close> is not among the sources. It is the
  \<^verbatim>\<open>Open(base descriptor-path)\<close> of the Image Mutator: it obtains the base manifest and
  configuration as the in-memory working copy, and is \<open>InvalidState\<close> when the base is
  not a single-manifest image.
\<close>

definition mutate_New :: "env \<Rightarrow> descriptor list \<Rightarrow> Mutator prog" where
  "mutate_New env path =
     bindE (engine_call env (MutatorNewCall path) (\<lambda>s. (Inr (), s))) (\<lambda>_.
     case path of
       [d] \<Rightarrow>
         if MediaType d \<noteq> MediaTypeImageManifest then throwE InvalidState else
         bindE (FromDescriptor env d) (\<lambda>manifestBlob.
         case Data manifestBlob of
           ManifestJSON m \<Rightarrow>
             bindE (FromDescriptor env (Config m)) (\<lambda>configBlob.
             case Data configBlob of
               ConfigJSON c \<Rightarrow>
                 returnE \<lparr>base = path, m_manifest = m, m_config = c, pending = []\<rparr>
             | _ \<Rightarrow> throwE InvalidState)
         | _ \<Rightarrow> throwE InvalidState)
     | _ \<Rightarrow> throwE InvalidState)"

text \<open>
  Modelled from the spec: \<^verbatim>\<open>Mutator.Add\<close> is not among the sources. It is purely
  additive to the working copy: the layer descriptor, the diffID (the digest of the
  uncompressed stream) and the history entry are each appended at the end, and no blob
  is written until \<^verbatim>\<open>Commit\<close>.
\<close>

definition Add :: "env \<Rightarrow> Mutator \<Rightarrow> string \<Rightarrow> history \<Rightarrow> Mutator prog" where
  "Add env mutator reader h =
     bindE (engine_call env (MutatorAddCall reader h) (\<lambda>s. (Inr (), s))) (\<lambda>_.
     let stored = compress env reader;
         diffID = digest_of env (LayerBlob reader);
         layerDescriptor =
           \<lparr>MediaType = MediaTypeImageLayer, Digest = digest_of env (LayerBlob stored),
            Size = size_of env (LayerBlob stored)\<rparr>;
         m = m_manifest mutator;
         c = m_config mutator
     in returnE (mutator
          \<lparr>m_manifest := m\<lparr>Layers := Layers m @ [layerDescriptor]\<rparr>,
           m_config := c\<lparr>DiffIDs := DiffIDs c @ [diffID], History := History c @ [h]\<rparr>,
           pending := pending mutator @ [stored]\<rparr>))"

fun put_layers :: "env \<Rightarrow> string list \<Rightarrow> unit prog" where
  "put_layers env [] = returnE ()"
| "put_layers env (b # bs) = bindE (PutBlob env b) (\<lambda>_. put_layers env bs)"

text \<open>
  Modelled from the spec: \<^verbatim>\<open>Mutator.Commit\<close> is not among the sources. It writes, in
  order, the layer blobs not yet written, the new configuration blob, and the new
  manifest blob referencing the new configuration and the extended layer list, and
  returns the descriptor path of the new manifest.
\<close>

definition Commit :: "env \<Rightarrow> Mutator \<Rightarrow> descriptor list prog" where
  "Commit env mutator =
     bindE (engine_call env MutatorCommitCall (\<lambda>s. (Inr (), s))) (\<lambda>_.
     bindE (put_layers env (pending mutator)) (\<lambda>_.
     bindE (PutBlobJSON env (ConfigJSON (m_config mutator))) (\<lambda>(newConfigDigest, newConfigSize).
     let m = m_manifest mutator;
         m = m\<lparr>Config := (Config m)\<lparr>Digest := newConfigDigest, Size := newConfigSize\<rparr>\<rparr> in
     bindE (PutBlobJSON env (ManifestJSON m)) (\<lambda>(newManifestDigest, newManifestSize).
     returnE [\<lparr>MediaType = MediaTypeImageManifest, Digest = newManifestDigest,
               Size = newManifestSize\<rparr>]))))"

text \<open>
  Modelled from the spec: the descriptor path's \<^verbatim>\<open>Root\<close> is not among the sources. It
  is the first descriptor of the chain; an empty chain has none.
\<close>

definition Root :: "descriptor list \<Rightarrow> descriptor prog" where
  "Root path = (case path of [] \<Rightarrow> throwE (Panic ''Root'') | d # ds \<Rightarrow> returnE d)"

section \<open>insert\<close>

text \<open>
  \<^verbatim>\<open>ctx.App.Metadata[key].(string)\<close>: the type assertion panics when the key is not set.
\<close>

definition metadata_string :: "cli_Context \<Rightarrow> string \<Rightarrow> string prog" where
  "metadata_string ctx key =
     (case Metadata ctx key of None \<Rightarrow> throwE (Panic key) | Some val \<Rightarrow> returnE val)"

text \<open>
  \<^verbatim>\<open>insert\<close> (insert.go lines 74 to 162), statement by statement; the name carries a
  suffix because \<open>insert\<close> is taken by the library of sets. \<^verbatim>\<open>parseIdmapOptions\<close>,
  \<^verbatim>\<open>layer.GenerateInsertLayer\<close>, \<^verbatim>\<open>time.Now\<close> and \<^verbatim>\<open>time.Parse\<close> with the ISO 8601 layout
  are the environment's. Closing the layer reader does not reach the store and is left
  out; \<^verbatim>\<open>defer engine.Close()\<close> is kept.
\<close>

definition insert_cmd :: "env \<Rightarrow> cli_Context \<Rightarrow> unit prog" where
  "insert_cmd env ctx =
     bindE (metadata_string ctx ''--image-path'') (\<lambda>imagePath.
     bindE (metadata_string ctx ''--image-tag'') (\<lambda>tagName.
     bindE (wrapE ''open CAS'' (cas_Open env imagePath)) (\<lambda>engine.
     deferE (Close env)
    (bindE (wrapE ''get descriptor'' (ResolveReference env tagName)) (\<lambda>descriptorPaths.
     if length descriptorPaths = 0 then throwE (Errorf (''tag not found: '' @ tagName)) else
     if length descriptorPaths \<noteq> 1 then throwE (Errorf (''tag is ambiguous: '' @ tagName)) else
     bindE (wrapE ''create mutator for base image'' (mutate_New env (descriptorPaths ! 0)))
       (\<lambda>mutator.
     bindE (metadata_string ctx ''insertFile'') (\<lambda>insertFile.
     bindE (metadata_string ctx ''insertPath'') (\<lambda>insertPath.
     bindE (liftE (parseIdmapOptions env (Metadata ctx))) (\<lambda>mapOptions.
     let reader = GenerateInsertLayer env insertFile insertPath mapOptions;
         created = now env;
         history = \<lparr>Created = Some created, CreatedBy = ''umoci insert'', Author = [],
                    Comment = [], EmptyLayer = False\<rparr>;
         history = (case Metadata ctx ''--history.author'' of
                      Some val \<Rightarrow> history\<lparr>Author := val\<rparr> | None \<Rightarrow> history);
         history = (case Metadata ctx ''--history.comment'' of
                      Some val \<Rightarrow> history\<lparr>Comment := val\<rparr> | None \<Rightarrow> history)
     in
     bindE (case Metadata ctx ''--history.created'' of
              Some val \<Rightarrow>
                bindE (wrapE ''parsing --history.created'' (liftE (time_Parse env val)))
                  (\<lambda>created. returnE (history\<lparr>Created := Some created\<rparr>))
            | None \<Rightarrow> returnE history) (\<lambda>history.
     let history = (case Metadata ctx ''--history.created_by'' of
                      Some val \<Rightarrow> history\<lparr>CreatedBy := val\<rparr> | None \<Rightarrow> history)
     in
     bindE (wrapE ''add diff layer'' (Add env mutator reader history)) (\<lambda>mutator.
     bindE (wrapE ''commit mutated image'' (Commit env mutator)) (\<lambda>newDescriptorPath.
     bindE (Root newDescriptorPath) (\<lambda>root.
     bindE (wrapE ''add new tag'' (UpdateReference env tagName root)) (\<lambda>_.
     returnE ()))))))))))))))"

section \<open>Two stages of insert\<close>

text \<open>
  For the proofs, the body of \<^verbatim>\<open>insert\<close> is cut after the mapping options are parsed:
  \<open>insert_history\<close> is lines 119 to 142 (the history entry, handed to what follows) and
  \<open>insert_commit\<close> is lines 146 to 161 (Add, Commit, UpdateReference). They are the text
  of \<open>insert_cmd\<close> itself, which is shown to be their composition.
\<close>

definition insert_history :: "env \<Rightarrow> cli_Context \<Rightarrow> (history \<Rightarrow> 'a prog) \<Rightarrow> 'a prog" where
  "insert_history env ctx k =
     (let created = now env;
          history = \<lparr>Created = Some created, CreatedBy = ''umoci insert'', Author = [],
                     Comment = [], EmptyLayer = False\<rparr>;
          history = (case Metadata ctx ''--history.author'' of
                       Some val \<Rightarrow> history\<lparr>Author := val\<rparr> | None \<Rightarrow> history);
          history = (case Metadata ctx ''--history.comment'' of
                       Some val \<Rightarrow> history\<lparr>Comment := val\<rparr> | None \<Rightarrow> history)
      in
      bindE (case Metadata ctx ''--history.created'' of
               Some val \<Rightarrow>
                 bindE (wrapE ''parsing --history.created'' (liftE (time_Parse env val)))
                   (\<lambda>created. returnE (history\<lparr>Created := Some created\<rparr>))
             | None \<Rightarrow> returnE history) (\<lambda>history.
      let history = (case Metadata ctx ''--history.created_by'' of
                       Some val \<Rightarrow> history\<lparr>CreatedBy := val\<rparr> | None \<Rightarrow> history)
      in k history))"

definition insert_commit :: "env \<Rightarrow> string \<Rightarrow> Mutator \<Rightarrow> string \<Rightarrow> history \<Rightarrow> unit prog" where
  "insert_commit env tagName mutator reader history =
     bindE (wrapE ''add diff layer'' (Add env mutator reader history)) (\<lambda>mutator.
     bindE (wrapE ''commit mutated image'' (Commit env mutator)) (\<lambda>newDescriptorPath.
     bindE (Root newDescriptorPath) (\<lambda>root.
     bindE (wrapE ''add new tag'' (UpdateReference env tagName root)) (\<lambda>_.
     returnE ()))))"

section \<open>Reading a run\<close>

text \<open>The calls that write a blob, and the calls that change a reference.\<close>

fun is_blob_write :: "call \<Rightarrow> bool" where
  "is_blob_write (PutBlobCall bs) = True"
| "is_blob_write (PutBlobJSONCall b) = True"
| "is_blob_write c = False"

fun is_ref_write :: "call \<Rightarrow> bool" where
  "is_ref_write (DeleteReferenceCall n) = True"
| "is_ref_write (PutReferenceCall n d) = True"
| "is_ref_write (UpdateReferenceCall n d) = True"
| "is_ref_write c = False"

text \<open>The configurations and the manifests handed to \<^verbatim>\<open>PutBlobJSON\<close>, in order.\<close>

fun written_configs :: "call list \<Rightarrow> image list" where
  "written_configs [] = []"
| "written_configs (PutBlobJSONCall (ConfigJSON c) # t) = c # written_configs t"
| "written_configs (x # t) = written_configs t"

fun written_manifests :: "call list \<Rightarrow> manifest list" where
  "written_manifests [] = []"
| "written_manifests (PutBlobJSONCall (ManifestJSON m) # t) = m # written_manifests t"
| "written_manifests (x # t) = written_manifests t"

text \<open>A blob is stored under a digest.\<close>

definition stored :: "store \<Rightarrow> string \<Rightarrow> bool" where
  "stored s k = (case blobs s k of None \<Rightarrow> False | Some b \<Rightarrow> True)"

text \<open>The number of history entries that stand for a layer.\<close>

definition layer_entries :: "image \<Rightarrow> nat" where
  "layer_entries c = length (filter (\<lambda>h. \<not> EmptyLayer h) (History c))"

section \<open>A concrete image store\<close>

text \<open>
  A store with one image (one layer, one history entry) tagged \<open>latest\<close>, and an
  environment in which every collaborator succeeds; the examples below run the two
  commands on them.
\<close>

fun ex_digest :: "blob \<Rightarrow> string" where
  "ex_digest (LayerBlob bs) = ''L:'' @ bs"
| "ex_digest (ConfigJSON c) = ''C:'' @ concat (DiffIDs c) @ ''/'' @ concat (map CreatedBy (History c))"
| "ex_digest (ManifestJSON m) = ''M:'' @ Digest (Config m) @ ''/'' @ concat (map Digest (Layers m))"

definition ex_history0 :: history where
  "ex_history0 =
     \<lparr>Created = Some 0, CreatedBy = ''base'', Author = [], Comment = [], EmptyLayer = False\<rparr>"

definition ex_config0 :: image where
  "ex_config0 = \<lparr>DiffIDs = [''L:base''], History = [ex_history0], Opaque = []\<rparr>"

definition ex_manifest0 :: manifest where
  "ex_manifest0 =
     \<lparr>Config = \<lparr>MediaType = MediaTypeImageConfig, Digest = ex_digest (ConfigJSON ex_config0),
                Size = 1\<rparr>,
      Layers = [\<lparr>MediaType = MediaTypeImageLayer, Digest = ''L:gz:base'', Size = 1\<rparr>]\<rparr>"

definition ex_from :: descriptor where
  "ex_from =
     \<lparr>MediaType = MediaTypeImageManifest, Digest = ex_digest (ManifestJSON ex_manifest0),
      Size = 1\<rparr>"

definition ex_store :: store where
  "ex_store =
     \<lparr>blobs = [ex_digest (ConfigJSON ex_config0) \<mapsto> ConfigJSON ex_config0,
               ex_digest (ManifestJSON ex_manifest0) \<mapsto> ManifestJSON ex_manifest0],
      refs = [''latest'' \<mapsto> ex_from]\<rparr>"

definition ex_env :: env where
  "ex_env =
     \<lparr>io_error = (\<lambda>c. None),
      digest_of = ex_digest,
      size_of = (\<lambda>b. 1),
      compress = (\<lambda>bs. ''gz:'' @ bs),
      failed_put = ([], - 1),
      os_Open = (\<lambda>p. Inr p),
      ParseSpec = (\<lambda>h. Inr []),
      CollectUsedKeywords = (\<lambda>sp. []),
      Check = (\<lambda>p sp k. Inr [''etc/motd'']),
      GenerateLayer = (\<lambda>p d. Inr ''gz:diff''),
      generator_error = (\<lambda>c. None),
      resolve = (\<lambda>s n. case refs s n of None \<Rightarrow> [] | Some d \<Rightarrow> [ [d] ]),
      parseIdmapOptions = (\<lambda>m. Inr []),
      GenerateInsertLayer = (\<lambda>f p opts. ''tar:'' @ p),
      now = 1000,
      time_Parse = (\<lambda>v. if v = ''2016-12-31T23:59:59Z'' then Inr 42
                          else Inl (Errorf ''cannot parse''))\<rparr>"

definition ex_ctx :: cli_Context where
  "ex_ctx =
     \<lparr>flags = (\<lambda>n. if n = ''image'' then ''image'' else if n = ''bundle'' then ''bundle''
                    else if n = ''from'' then ''latest'' else []),
      Metadata = [''--image-path'' \<mapsto> ''image'', ''--image-tag'' \<mapsto> ''latest'',
                  ''insertFile'' \<mapsto> ''motd'', ''insertPath'' \<mapsto> ''/etc/motd'']\<rparr>"

text \<open>The same command line with a \<^verbatim>\<open>--tag\<close>.\<close>

definition ex_ctx_tag :: "string \<Rightarrow> cli_Context" where
  "ex_ctx_tag n = ex_ctx\<lparr>flags := (flags ex_ctx)(''tag'' := n)\<rparr>"

text \<open>The same environment, in which the calls picked by \<open>bad\<close> meet an I/O failure.\<close>

definition ex_env_failing :: "(call \<Rightarrow> bool) \<Rightarrow> env" where
  "ex_env_failing bad =
     ex_env\<lparr>io_error := (\<lambda>c. if bad c then Some (IOError ''injected'') else None)\<rparr>"

fun is_put_reference :: "call \<Rightarrow> bool" where
  "is_put_reference (PutReferenceCall n d) = True"
| "is_put_reference c = False"

fun is_manifest_write :: "call \<Rightarrow> bool" where
  "is_manifest_write (PutBlobJSONCall (ManifestJSON m)) = True"
| "is_manifest_write c = False"

text \<open>What repack hands to the two \<^verbatim>\<open>PutBlobJSON\<close> calls on this store.\<close>

definition ex_config1 :: image where
  "ex_config1 = \<lparr>DiffIDs = [''L:base'', ''L:gz:diff''], History = [ex_history0], Opaque = []\<rparr>"

definition ex_manifest1 :: manifest where
  "ex_manifest1 =
     \<lparr>Config = \<lparr>MediaType = MediaTypeImageConfig, Digest = ex_digest (ConfigJSON ex_config1),
                Size = 1\<rparr>,
      Layers = [\<lparr>MediaType = MediaTypeImageLayer, Digest = ''L:gz:base'', Size = 1\<rparr>,
                \<lparr>MediaType = MediaTypeImageLayer, Digest = ''L:gz:diff'', Size = 1\<rparr>]\<rparr>"

text \<open>What insert hands to \<^verbatim>\<open>Add\<close> and to the two \<^verbatim>\<open>PutBlobJSON\<close> calls on this store.\<close>

definition ex_history_insert :: history where
  "ex_history_insert =
     \<lparr>Created = Some 1000, CreatedBy = ''umoci insert'', Author = [], Comment = [],
      EmptyLayer = False\<rparr>"

definition ex_config2 :: image where
  "ex_config2 =
     \<lparr>DiffIDs = [''L:base'', ''L:tar:/etc/motd''], History = [ex_history0, ex_history_insert],
      Opaque = []\<rparr>"

definition ex_manifest2 :: manifest where
  "ex_manifest2 =
     \<lparr>Config = \<lparr>MediaType = MediaTypeImageConfig, Digest = ex_digest (ConfigJSON ex_config2),
                Size = 1\<rparr>,
      Layers = [\<lparr>MediaType = MediaTypeImageLayer, Digest = ''L:gz:base'', Size = 1\<rparr>,
                \<lparr>MediaType = MediaTypeImageLayer, Digest = ''L:gz:tar:/etc/motd'', Size = 1\<rparr>]\<rparr>"

text \<open>The command line of insert with \<^verbatim>\<open>--history.created\<close> and \<^verbatim>\<open>--history.created_by\<close> set.\<close>

definition ex_ctx_history :: cli_Context where
  "ex_ctx_history =
     ex_ctx\<lparr>Metadata := (Metadata ex_ctx)
       (''--history.created'' \<mapsto> ''2016-12-31T23:59:59Z'', ''--history.created_by'' \<mapsto> ''me'')\<rparr>"

section \<open>Reasoning about runs\<close>

text \<open>
  A run of a sequence is taken apart call by call: either the first part fails, and its
  failure is the run, or it succeeds and the run goes on in the store it left.
\<close>

lemma bindE_E:
  assumes "bindE m f s = (r, s2, T)"
  obtains (fail) e where "m s = (Inl e, s2, T)" and "r = Inl e"
  | (ok) x s1 t t' where "m s = (Inr x, s1, t)" and "f x s1 = (r, s2, t')" and "T = t @ t'"
  using assms by (auto simp: bindE_def split: prod.splits sum.splits)

lemma deferE_E:
  assumes "deferE c m s = (r, s2, T)"
  obtains s1 t r' t' where "m s = (r, s1, t)" and "c s1 = (r', s2, t')" and "T = t @ t'"
  using assms by (auto simp: deferE_def split: prod.splits)

lemma uncheckedE_E:
  assumes "uncheckedE m d f s = (r, s2, T)"
  obtains r1 s1 t t' where "m s = (r1, s1, t)"
    and "f (case r1 of Inl e \<Rightarrow> d | Inr x \<Rightarrow> x) s1 = (r, s2, t')" and "T = t @ t'"
  using assms by (auto simp: uncheckedE_def split: prod.splits)

text \<open>While a run is taken apart, what follows the current call is left as it is.\<close>

lemma bindE_cong: "m = m' \<Longrightarrow> bindE m f = bindE m' f"
  by simp

lemma deferE_cong: "c = c' \<Longrightarrow> deferE c m = deferE c' m"
  by simp

lemma uncheckedE_cong: "m = m' \<Longrightarrow> d = d' \<Longrightarrow> uncheckedE m d f = uncheckedE m' d' f"
  by simp

lemmas later_cong = bindE_cong deferE_cong uncheckedE_cong

lemma wrapE_iff:
  "wrapE msg m s = (Inr x, s2, T) \<longleftrightarrow> m s = (Inr x, s2, T)"
  "wrapE msg m s = (Inl e, s2, T) \<longleftrightarrow> (\<exists>e0. m s = (Inl e0, s2, T) \<and> e = Wrap e0 msg)"
  by (auto simp: wrapE_def split: prod.splits sum.splits)

lemma pure_iff:
  "throwE e s = (r, s2, T) \<longleftrightarrow> r = Inl e \<and> s2 = s \<and> T = []"
  "returnE x s = (r, s2, T) \<longleftrightarrow> r = Inr x \<and> s2 = s \<and> T = []"
  "liftE r0 s = (r, s2, T) \<longleftrightarrow> r0 = r \<and> s2 = s \<and> T = []"
  by (auto simp: throwE_def returnE_def liftE_def)

lemma engine_call_iff:
  "engine_call env c g s = (r, s2, T) \<longleftrightarrow>
     T = [c] \<and> (case io_error env c of Some e \<Rightarrow> r = Inl e \<and> s2 = s | None \<Rightarrow> g s = (r, s2))"
  by (auto simp: engine_call_def split: option.splits prod.splits)

lemma metadata_string_iff:
  "metadata_string ctx key s = (Inr v, s2, T) \<longleftrightarrow> Metadata ctx key = Some v \<and> s2 = s \<and> T = []"
  "metadata_string ctx key s = (Inl e, s2, T) \<longleftrightarrow>
     Metadata ctx key = None \<and> e = Panic key \<and> s2 = s \<and> T = []"
  by (auto simp: metadata_string_def pure_iff split: option.splits)

subsection \<open>The engine's operations, one run each\<close>

lemma cas_Open_iff:
  "cas_Open env p s = (Inr x, s2, T) \<longleftrightarrow>
     io_error env (OpenCall p) = None \<and> s2 = s \<and> T = [OpenCall p]"
  "cas_Open env p s = (Inl e, s2, T) \<longleftrightarrow>
     io_error env (OpenCall p) = Some e \<and> s2 = s \<and> T = [OpenCall p]"
  by (auto simp: cas_Open_def engine_call_iff split: option.splits)

lemma Close_iff:
  "Close env s = (r, s2, T) \<longleftrightarrow>
     s2 = s \<and> T = [CloseCall]
     \<and> r = (case io_error env CloseCall of Some e \<Rightarrow> Inl e | None \<Rightarrow> Inr ())"
  by (auto simp: Close_def engine_call_iff split: option.splits)

lemma GetReference_iff:
  "GetReference env n s = (Inr d, s2, T) \<longleftrightarrow>
     io_error env (GetReferenceCall n) = None \<and> refs s n = Some d
     \<and> s2 = s \<and> T = [GetReferenceCall n]"
  "GetReference env n s = (Inl e, s2, T) \<longleftrightarrow>
     (io_error env (GetReferenceCall n) = Some e
      \<or> io_error env (GetReferenceCall n) = None \<and> refs s n = None \<and> e = NotFound n)
     \<and> s2 = s \<and> T = [GetReferenceCall n]"
  by (auto simp: GetReference_def engine_call_iff split: option.splits)

lemma ResolveReference_iff:
  "ResolveReference env n s = (Inr ps, s2, T) \<longleftrightarrow>
     io_error env (ResolveReferenceCall n) = None \<and> ps = resolve env s n
     \<and> s2 = s \<and> T = [ResolveReferenceCall n]"
  "ResolveReference env n s = (Inl e, s2, T) \<longleftrightarrow>
     io_error env (ResolveReferenceCall n) = Some e \<and> s2 = s \<and> T = [ResolveReferenceCall n]"
  by (auto simp: ResolveReference_def engine_call_iff split: option.splits)

lemma PutBlob_iff:
  "PutBlob env b s = (Inr x, s2, T) \<longleftrightarrow>
     io_error env (PutBlobCall b) = None
     \<and> x = (digest_of env (LayerBlob b), size_of env (LayerBlob b))
     \<and> s2 = snd (put env (LayerBlob b) s) \<and> T = [PutBlobCall b]"
  "PutBlob env b s = (Inl e, s2, T) \<longleftrightarrow>
     io_error env (PutBlobCall b) = Some e \<and> s2 = s \<and> T = [PutBlobCall b]"
  by (auto simp: PutBlob_def engine_call_iff put_def Let_def split: option.splits)

lemma PutBlobJSON_iff:
  "PutBlobJSON env b s = (Inr x, s2, T) \<longleftrightarrow>
     io_error env (PutBlobJSONCall b) = None \<and> x = (digest_of env b, size_of env b)
     \<and> s2 = snd (put env b s) \<and> T = [PutBlobJSONCall b]"
  "PutBlobJSON env b s = (Inl e, s2, T) \<longleftrightarrow>
     io_error env (PutBlobJSONCall b) = Some e \<and> s2 = s \<and> T = [PutBlobJSONCall b]"
  by (auto simp: PutBlobJSON_def engine_call_iff put_def Let_def split: option.splits)

lemma FromDescriptor_iff:
  "FromDescriptor env d s = (Inr x, s2, T) \<longleftrightarrow>
     io_error env (FromDescriptorCall d) = None \<and> s2 = s \<and> T = [FromDescriptorCall d]
     \<and> (\<exists>b. blobs s (Digest d) = Some b \<and> decode d b = Inr x)"
  "FromDescriptor env d s = (Inl e, s2, T) \<longleftrightarrow>
     s2 = s \<and> T = [FromDescriptorCall d]
     \<and> (io_error env (FromDescriptorCall d) = Some e
        \<or> io_error env (FromDescriptorCall d) = None
           \<and> (case blobs s (Digest d) of None \<Rightarrow> e = NotFound (Digest d)
               | Some b \<Rightarrow> decode d b = Inl e))"
  by (auto simp: FromDescriptor_def engine_call_iff split: option.splits)

lemma NewFromImage_iff:
  "NewFromImage env c s = (Inr x, s2, T) \<longleftrightarrow>
     generator_error env c = None \<and> x = c \<and> s2 = s \<and> T = []"
  "NewFromImage env c s = (Inl e, s2, T) \<longleftrightarrow>
     generator_error env c = Some e \<and> s2 = s \<and> T = []"
  by (auto simp: NewFromImage_def pure_iff split: option.splits)

lemma DeleteReference_iff:
  "DeleteReference env n s = (Inr x, s2, T) \<longleftrightarrow>
     io_error env (DeleteReferenceCall n) = None
     \<and> s2 = s\<lparr>refs := (refs s)(n := None)\<rparr> \<and> T = [DeleteReferenceCall n]"
  "DeleteReference env n s = (Inl e, s2, T) \<longleftrightarrow>
     io_error env (DeleteReferenceCall n) = Some e \<and> s2 = s \<and> T = [DeleteReferenceCall n]"
  by (auto simp: DeleteReference_def engine_call_iff split: option.splits)

lemma PutReference_iff:
  "PutReference env n d s = (Inr x, s2, T) \<longleftrightarrow>
     io_error env (PutReferenceCall n d) = None
     \<and> s2 = s\<lparr>refs := (refs s)(n \<mapsto> d)\<rparr> \<and> T = [PutReferenceCall n d]"
  "PutReference env n d s = (Inl e, s2, T) \<longleftrightarrow>
     io_error env (PutReferenceCall n d) = Some e \<and> s2 = s \<and> T = [PutReferenceCall n d]"
  by (auto simp: PutReference_def engine_call_iff split: option.splits)

lemma UpdateReference_iff:
  "UpdateReference env n d s = (Inr x, s2, T) \<longleftrightarrow>
     io_error env (UpdateReferenceCall n d) = None
     \<and> s2 = s\<lparr>refs := (refs s)(n \<mapsto> d)\<rparr> \<and> T = [UpdateReferenceCall n d]"
  "UpdateReference env n d s = (Inl e, s2, T) \<longleftrightarrow>
     io_error env (UpdateReferenceCall n d) = Some e \<and> s2 = s \<and> T = [UpdateReferenceCall n d]"
  by (auto simp: UpdateReference_def engine_call_iff split: option.splits)

lemma PutBlobJSON_E:
  assumes "PutBlobJSON env b s = (r, s2, T)"
  obtains (fail) e where "io_error env (PutBlobJSONCall b) = Some e" and "r = Inl e"
      and "s2 = s" and "T = [PutBlobJSONCall b]"
  | (ok) "io_error env (PutBlobJSONCall b) = None" and "r = Inr (digest_of env b, size_of env b)"
      and "s2 = snd (put env b s)" and "T = [PutBlobJSONCall b]"
  using assms by (cases r) (auto simp: PutBlobJSON_iff)

lemmas op_iffs = pure_iff wrapE_iff metadata_string_iff cas_Open_iff Close_iff GetReference_iff
  ResolveReference_iff PutBlob_iff PutBlobJSON_iff FromDescriptor_iff NewFromImage_iff
  DeleteReference_iff PutReference_iff UpdateReference_iff

subsection \<open>Stores after a put\<close>

lemma refs_put: "refs (snd (put env b s)) = refs s"
  by (simp add: put_def Let_def split: option.splits)

lemma stored_put_new: "stored (snd (put env b s)) (digest_of env b)"
  by (simp add: stored_def put_def Let_def split: option.splits)

lemma stored_put_mono: "stored s k \<Longrightarrow> stored (snd (put env b s)) k"
  by (simp add: stored_def put_def Let_def split: option.splits)

lemma stored_refs_update: "stored (s\<lparr>refs := r\<rparr>) k = stored s k"
  by (simp add: stored_def)

lemma blobs_put_old: "blobs s k = Some v \<Longrightarrow> blobs (snd (put env b s)) k = Some v"
  by (auto simp: put_def Let_def split: option.splits)

lemma blobs_put_cases:
  "blobs (snd (put env b s)) k = Some v \<Longrightarrow> blobs s k = Some v \<or> v = b"
  by (auto simp: put_def Let_def split: option.splits if_splits)

lemma decode_Inr: "decode d b = Inr x \<Longrightarrow> Data x = b \<and> BlobMediaType x = MediaType d"
  by (auto simp: decode_def split: if_splits blob.splits)

subsection \<open>The mutator's operations, one run each\<close>

lemma mutate_New_E:
  assumes "mutate_New env path s = (r, s2, T)"
  obtains (fail) e t where "r = Inl e" and "s2 = s" and "T = MutatorNewCall path # t"
      and "\<forall>c \<in> set t. \<not> is_blob_write c \<and> \<not> is_ref_write c"
      and "\<forall>p. MutatorNewCall p \<notin> set t" and "\<forall>rd h. MutatorAddCall rd h \<notin> set t"
  | (ok) d M0 C0 where "path = [d]" and "MediaType d = MediaTypeImageManifest"
      and "blobs s (Digest d) = Some (ManifestJSON M0)"
      and "blobs s (Digest (Config M0)) = Some (ConfigJSON C0)"
      and "r = Inr \<lparr>base = path, m_manifest = M0, m_config = C0, pending = []\<rparr>"
      and "s2 = s"
      and "T = [MutatorNewCall path, FromDescriptorCall d, FromDescriptorCall (Config M0)]"
  using assms unfolding mutate_New_def
  by (cases r)
     (auto simp: op_iffs engine_call_iff split: option.splits list.splits if_splits blob.splits
        elim!: bindE_E dest!: decode_Inr)

lemma Add_iff:
  "Add env mu reader h s = (Inr mu', s2, T) \<longleftrightarrow>
     io_error env (MutatorAddCall reader h) = None \<and> s2 = s \<and> T = [MutatorAddCall reader h]
     \<and> mu' = mu
         \<lparr>m_manifest := (m_manifest mu)
            \<lparr>Layers := Layers (m_manifest mu) @
               [\<lparr>MediaType = MediaTypeImageLayer,
                 Digest = digest_of env (LayerBlob (compress env reader)),
                 Size = size_of env (LayerBlob (compress env reader))\<rparr>]\<rparr>,
          m_config := (m_config mu)
            \<lparr>DiffIDs := DiffIDs (m_config mu) @ [digest_of env (LayerBlob reader)],
             History := History (m_config mu) @ [h]\<rparr>,
          pending := pending mu @ [compress env reader]\<rparr>"
  "Add env mu reader h s = (Inl e, s2, T) \<longleftrightarrow>
     io_error env (MutatorAddCall reader h) = Some e \<and> s2 = s \<and> T = [MutatorAddCall reader h]"
  unfolding Add_def Let_def
  by (auto simp: op_iffs engine_call_iff split: option.splits elim!: bindE_E)
     (auto simp: bindE_def engine_call_def returnE_def)

lemma put_layers_run:
  "put_layers env bs s = (r, s2, T) \<Longrightarrow>
     refs s2 = refs s \<and> (\<forall>c \<in> set T. is_blob_write c)
     \<and> (\<forall>k. stored s k \<longrightarrow> stored s2 k)
     \<and> (r = Inr () \<longrightarrow> T = map PutBlobCall bs
           \<and> s2 = foldl (\<lambda>s b. snd (put env (LayerBlob b) s)) s bs)"
proof (induction bs arbitrary: s r s2 T)
  case Nil
  then show ?case by (simp add: op_iffs)
next
  case (Cons b bs)
  from Cons.prems have "bindE (PutBlob env b) (\<lambda>_. put_layers env bs) s = (r, s2, T)"
    by simp
  then show ?case
  proof (cases rule: bindE_E)
    case (fail e)
    then show ?thesis by (simp add: op_iffs)
  next
    case (ok x s1 t t')
    from Cons.IH[OF ok(2)] ok(1,3) show ?thesis
      by (auto simp: op_iffs refs_put stored_put_mono)
  qed
qed

lemma blob_writes_only:
  assumes "\<forall>c \<in> set t. is_blob_write c"
  shows "MutatorNewCall p \<notin> set t" and "MutatorAddCall rd h \<notin> set t"
    and "UpdateReferenceCall n d \<notin> set t"
  using assms by auto

lemma Commit_cases:
  assumes "Commit env mu s = (r, s2, T)"
  obtains (fail) e t where "r = Inl e" and "refs s2 = refs s" and "T = MutatorCommitCall # t"
      and "\<forall>c \<in> set t. is_blob_write c"
  | (ok) C1 M1 where "C1 = m_config mu"
      and "M1 = (m_manifest mu)\<lparr>Config := (Config (m_manifest mu))
                 \<lparr>Digest := digest_of env (ConfigJSON C1), Size := size_of env (ConfigJSON C1)\<rparr>\<rparr>"
      and "r = Inr [\<lparr>MediaType = MediaTypeImageManifest, Digest = digest_of env (ManifestJSON M1),
                      Size = size_of env (ManifestJSON M1)\<rparr>]"
      and "refs s2 = refs s"
      and "stored s2 (digest_of env (ConfigJSON C1))" and "stored s2 (digest_of env (ManifestJSON M1))"
      and "s2 = snd (put env (ManifestJSON M1) (snd (put env (ConfigJSON C1)
                 (foldl (\<lambda>s b. snd (put env (LayerBlob b) s)) s (pending mu)))))"
      and "T = MutatorCommitCall # map PutBlobCall (pending mu)
                 @ [PutBlobJSONCall (ConfigJSON C1), PutBlobJSONCall (ManifestJSON M1)]"
  using assms unfolding Commit_def Let_def
  by (cases r)
     (auto simp: op_iffs engine_call_iff refs_put stored_put_new stored_put_mono
        split: option.splits elim!: bindE_E dest!: put_layers_run)

lemma Commit_E:
  assumes "Commit env mu s = (r, s2, T)"
  obtains (fail) e t where "r = Inl e" and "refs s2 = refs s" and "T = MutatorCommitCall # t"
      and "\<forall>c \<in> set t. is_blob_write c"
      and "\<forall>p. MutatorNewCall p \<notin> set t" and "\<forall>rd h. MutatorAddCall rd h \<notin> set t"
      and "\<forall>n d. UpdateReferenceCall n d \<notin> set t"
  | (ok) C1 M1 where "C1 = m_config mu"
      and "M1 = (m_manifest mu)\<lparr>Config := (Config (m_manifest mu))
                 \<lparr>Digest := digest_of env (ConfigJSON C1), Size := size_of env (ConfigJSON C1)\<rparr>\<rparr>"
      and "r = Inr [\<lparr>MediaType = MediaTypeImageManifest, Digest = digest_of env (ManifestJSON M1),
                      Size = size_of env (ManifestJSON M1)\<rparr>]"
      and "refs s2 = refs s"
      and "stored s2 (digest_of env (ConfigJSON C1))" and "stored s2 (digest_of env (ManifestJSON M1))"
      and "s2 = snd (put env (ManifestJSON M1) (snd (put env (ConfigJSON C1)
                 (foldl (\<lambda>s b. snd (put env (LayerBlob b) s)) s (pending mu)))))"
      and "T = MutatorCommitCall # map PutBlobCall (pending mu)
                 @ [PutBlobJSONCall (ConfigJSON C1), PutBlobJSONCall (ManifestJSON M1)]"
  using assms
proof (cases rule: Commit_cases)
  case (fail e t)
  from fail(4) have "\<forall>p. MutatorNewCall p \<notin> set t" and "\<forall>rd h. MutatorAddCall rd h \<notin> set t"
    and "\<forall>n d. UpdateReferenceCall n d \<notin> set t"
    by (blast dest: blob_writes_only)+
  with fail that(1) show thesis by blast
next
  case (ok C1 M1)
  then show thesis by (rule that(2))
qed

lemma Root_iff:
  "Root path s = (Inr d, s2, T) \<longleftrightarrow> (\<exists>ds. path = d # ds) \<and> s2 = s \<and> T = []"
  "Root path s = (Inl e, s2, T) \<longleftrightarrow> path = [] \<and> e = Panic ''Root'' \<and> s2 = s \<and> T = []"
  by (auto simp: Root_def op_iffs split: list.splits)

lemma Add_then_Commit_run:
  assumes "bindE (mutate_New env path0) (\<lambda>mu. bindE (Add env mu reader h) (Commit env)) s
             = (Inr path, s', T)"
  shows "\<exists>d M0 C0 C1 M1.
           path0 = [d]
         \<and> blobs s (Digest d) = Some (ManifestJSON M0)
         \<and> blobs s (Digest (Config M0)) = Some (ConfigJSON C0)
         \<and> C1 = C0\<lparr>DiffIDs := DiffIDs C0 @ [digest_of env (LayerBlob reader)],
                     History := History C0 @ [h]\<rparr>
         \<and> M1 = M0\<lparr>Layers := Layers M0 @
                       [\<lparr>MediaType = MediaTypeImageLayer,
                         Digest = digest_of env (LayerBlob (compress env reader)),
                         Size = size_of env (LayerBlob (compress env reader))\<rparr>],
                     Config := (Config M0)
                       \<lparr>Digest := digest_of env (ConfigJSON C1), Size := size_of env (ConfigJSON C1)\<rparr>\<rparr>
         \<and> T = [MutatorNewCall path0, FromDescriptorCall d, FromDescriptorCall (Config M0),
                 MutatorAddCall reader h, MutatorCommitCall, PutBlobCall (compress env reader),
                 PutBlobJSONCall (ConfigJSON C1), PutBlobJSONCall (ManifestJSON M1)]
         \<and> path = [\<lparr>MediaType = MediaTypeImageManifest, Digest = digest_of env (ManifestJSON M1),
                      Size = size_of env (ManifestJSON M1)\<rparr>]
         \<and> s' = snd (put env (ManifestJSON M1) (snd (put env (ConfigJSON C1)
                    (snd (put env (LayerBlob (compress env reader)) s)))))"
  using assms
  by (auto simp: op_iffs Add_iff elim!: bindE_E mutate_New_E Commit_E cong: later_cong)

subsection \<open>Runs of repack\<close>

lemmas repack_elims = bindE_E deferE_E uncheckedE_E PutBlobJSON_E

lemma repack_run_empty_tag:
  assumes "String ctx ''tag'' = []" and "repack env ctx s = (r, s', T)"
  shows "refs s' = refs s"
  using assms unfolding repack_def Let_def
  by (auto simp: op_iffs refs_put case_prod_beta split: if_splits blob.splits
      elim!: repack_elims cong: later_cong)

lemma repack_run_success:
  assumes "repack env ctx s = (Inr (), s', T)"
  shows "\<exists>d reader M0 C0 C1 M1.
           refs s (String ctx ''from'') = Some d
         \<and> blobs s (Digest d) = Some (ManifestJSON M0)
         \<and> blobs s (Digest (Config M0)) = Some (ConfigJSON C0)
         \<and> C1 = C0\<lparr>DiffIDs := DiffIDs C0 @ [digest_of env (LayerBlob reader)]\<rparr>
         \<and> M1 = M0\<lparr>Layers := Layers M0 @
                       [\<lparr>MediaType = MediaTypeImageLayer, Digest = digest_of env (LayerBlob reader),
                         Size = size_of env (LayerBlob reader)\<rparr>],
                     Config := (Config M0)
                       \<lparr>Digest := digest_of env (ConfigJSON C1), Size := size_of env (ConfigJSON C1)\<rparr>\<rparr>
         \<and> filter is_blob_write T =
             [PutBlobCall reader, PutBlobJSONCall (ConfigJSON C1), PutBlobJSONCall (ManifestJSON M1)]
         \<and> stored s' (digest_of env (LayerBlob reader))
         \<and> stored s' (digest_of env (ConfigJSON C1))
         \<and> (io_error env (PutBlobJSONCall (ManifestJSON M1)) = None
              \<longrightarrow> stored s' (digest_of env (ManifestJSON M1)))"
  using assms unfolding repack_def Let_def
  by (auto simp: op_iffs stored_put_new stored_put_mono stored_refs_update case_prod_beta
        AddRootfsDiffID_def generator_Image_def
      split: if_splits blob.splits
      elim!: repack_elims dest!: decode_Inr blobs_put_cases cong: later_cong)


lemma repack_run_untagged:
  assumes "repack env ctx s = (r, s', T)"
    and "DeleteReferenceCall (String ctx ''tag'') \<notin> set T"
  shows "refs s' = refs s"
  using assms unfolding repack_def Let_def
  by (auto simp: op_iffs refs_put case_prod_beta split: if_splits blob.splits
      elim!: repack_elims cong: later_cong)

lemma repack_run_checked_error:
  assumes "repack env ctx s = (r, s', T)"
    and "c \<in> set T" and "io_error env c = Some e"
    and "c \<noteq> CloseCall" and "\<forall>m. c \<noteq> PutBlobJSONCall (ManifestJSON m)"
  shows "r = Inl e"
  using assms unfolding repack_def Let_def
  by (auto simp: op_iffs case_prod_beta split: if_splits blob.splits
      elim!: repack_elims cong: later_cong)

lemma repack_run_from_rejected:
  assumes "repack env ctx s = (r, s', T)"
    and "refs s (String ctx ''from'') = None
         \<or> (\<exists>d. refs s (String ctx ''from'') = Some d \<and> MediaType d \<noteq> MediaTypeImageManifest)"
  shows "(\<exists>e. r = Inl e) \<and> s' = s \<and> (\<forall>c \<in> set T. \<not> is_blob_write c \<and> \<not> is_ref_write c)"
  using assms unfolding repack_def Let_def
  by (auto simp: op_iffs case_prod_beta split: if_splits blob.splits
      elim!: repack_elims cong: later_cong)

lemma repack_run_returns_after_writes:
  assumes "String ctx ''tag'' = []" and "repack env ctx s = (r, s', T)"
    and "PutBlobJSONCall (ManifestJSON m) \<in> set T"
  shows "r = Inr ()"
  using assms unfolding repack_def Let_def
  by (auto simp: op_iffs case_prod_beta split: if_splits blob.splits
      elim!: repack_elims cong: later_cong)

lemma written_configs_filter: "written_configs (filter is_blob_write t) = written_configs t"
  by (induction t rule: written_configs.induct) simp_all

lemma written_manifests_filter: "written_manifests (filter is_blob_write t) = written_manifests t"
  by (induction t rule: written_manifests.induct) simp_all

lemma repack_run_counts:
  assumes "repack env ctx s = (Inr (), s', T)"
  shows "\<exists>d M0 C0 C1 M1.
           refs s (String ctx ''from'') = Some d
         \<and> blobs s (Digest d) = Some (ManifestJSON M0)
         \<and> blobs s (Digest (Config M0)) = Some (ConfigJSON C0)
         \<and> written_configs T = [C1] \<and> written_manifests T = [M1]
         \<and> length (DiffIDs C1) = Suc (length (DiffIDs C0))
         \<and> length (Layers M1) = Suc (length (Layers M0))
         \<and> layer_entries C1 = layer_entries C0"
proof -
  from repack_run_success[OF assms]
  obtain d reader M0 C0 C1 M1 where
    r: "refs s (String ctx ''from'') = Some d"
      "blobs s (Digest d) = Some (ManifestJSON M0)"
      "blobs s (Digest (Config M0)) = Some (ConfigJSON C0)"
      "C1 = C0\<lparr>DiffIDs := DiffIDs C0 @ [digest_of env (LayerBlob reader)]\<rparr>"
      "M1 = M0\<lparr>Layers := Layers M0 @
                       [\<lparr>MediaType = MediaTypeImageLayer, Digest = digest_of env (LayerBlob reader),
                         Size = size_of env (LayerBlob reader)\<rparr>],
                     Config := (Config M0)
                       \<lparr>Digest := digest_of env (ConfigJSON C1), Size := size_of env (ConfigJSON C1)\<rparr>\<rparr>"
      "filter is_blob_write T =
             [PutBlobCall reader, PutBlobJSONCall (ConfigJSON C1), PutBlobJSONCall (ManifestJSON M1)]"
    by blast
  from r(6) have "written_configs (filter is_blob_write T) = [C1]"
    and "written_manifests (filter is_blob_write T) = [M1]"
    by simp_all
  then have "written_configs T = [C1]" and "written_manifests T = [M1]"
    by (simp_all add: written_configs_filter written_manifests_filter)
  with r have "refs s (String ctx ''from'') = Some d
         \<and> blobs s (Digest d) = Some (ManifestJSON M0)
         \<and> blobs s (Digest (Config M0)) = Some (ConfigJSON C0)
         \<and> written_configs T = [C1] \<and> written_manifests T = [M1]
         \<and> length (DiffIDs C1) = Suc (length (DiffIDs C0))
         \<and> length (Layers M1) = Suc (length (Layers M0))
         \<and> layer_entries C1 = layer_entries C0"
    by (simp add: layer_entries_def)
  then show ?thesis
    by blast
qed

lemma repack_run_put_failed:
  assumes "repack env ctx s = (r, s', T)"
    and "PutReferenceCall (String ctx ''tag'') d \<in> set T"
    and "io_error env (PutReferenceCall (String ctx ''tag'') d) = Some e"
  shows "r = Inl e \<and> refs s' (String ctx ''tag'') = None"
  using assms unfolding repack_def Let_def
  by (auto simp: op_iffs refs_put case_prod_beta split: if_splits blob.splits
      elim!: repack_elims cong: later_cong)

subsection \<open>insert in two stages\<close>

lemma insert_cmd_stages:
  "insert_cmd env ctx =
     bindE (metadata_string ctx ''--image-path'') (\<lambda>imagePath.
     bindE (metadata_string ctx ''--image-tag'') (\<lambda>tagName.
     bindE (wrapE ''open CAS'' (cas_Open env imagePath)) (\<lambda>engine.
     deferE (Close env)
    (bindE (wrapE ''get descriptor'' (ResolveReference env tagName)) (\<lambda>descriptorPaths.
     if length descriptorPaths = 0 then throwE (Errorf (''tag not found: '' @ tagName)) else
     if length descriptorPaths \<noteq> 1 then throwE (Errorf (''tag is ambiguous: '' @ tagName)) else
     bindE (wrapE ''create mutator for base image'' (mutate_New env (descriptorPaths ! 0)))
       (\<lambda>mutator.
     bindE (metadata_string ctx ''insertFile'') (\<lambda>insertFile.
     bindE (metadata_string ctx ''insertPath'') (\<lambda>insertPath.
     bindE (liftE (parseIdmapOptions env (Metadata ctx))) (\<lambda>mapOptions.
     insert_history env ctx
       (insert_commit env tagName mutator
          (GenerateInsertLayer env insertFile insertPath mapOptions)))))))))))"
  unfolding insert_cmd_def insert_history_def insert_commit_def Let_def ..

lemma insert_history_E:
  assumes "insert_history env ctx k s = (r, s2, T)"
  obtains (unparsable) val e where "Metadata ctx ''--history.created'' = Some val"
      and "time_Parse env val = Inl e" and "r = Inl (Wrap e ''parsing --history.created'')"
      and "s2 = s" and "T = []"
  | (entry) h where "k h s = (r, s2, T)"
      and "EmptyLayer h = False"
      and "CreatedBy h = (case Metadata ctx ''--history.created_by'' of
                            Some val \<Rightarrow> val | None \<Rightarrow> ''umoci insert'')"
      and "case Metadata ctx ''--history.created'' of
             None \<Rightarrow> Created h = Some (now env)
           | Some val \<Rightarrow> (\<exists>t. time_Parse env val = Inr t \<and> Created h = Some t)"
  using assms unfolding insert_history_def Let_def
  by (auto simp: op_iffs split: option.splits elim!: bindE_E)

lemma insert_commit_E:
  assumes "insert_commit env tagName mu reader h s = (r, s2, T)"
  obtains (add_failed) e where "r = Inl e" and "s2 = s" and "T = [MutatorAddCall reader h]"
  | (commit_failed) e t where "r = Inl e" and "refs s2 = refs s"
      and "T = MutatorAddCall reader h # MutatorCommitCall # t"
      and "\<forall>c \<in> set t. is_blob_write c"
      and "\<forall>p. MutatorNewCall p \<notin> set t" and "\<forall>rd h'. MutatorAddCall rd h' \<notin> set t"
      and "\<forall>n d. UpdateReferenceCall n d \<notin> set t"
  | (update_failed) e s1 C1 M1 nd where "r = Inl e" and "s2 = s1" and "refs s1 = refs s"
      and "C1 = (m_config mu)\<lparr>DiffIDs := DiffIDs (m_config mu) @ [digest_of env (LayerBlob reader)],
                               History := History (m_config mu) @ [h]\<rparr>"
      and "M1 = (m_manifest mu)
                  \<lparr>Layers := Layers (m_manifest mu) @
                     [\<lparr>MediaType = MediaTypeImageLayer,
                       Digest = digest_of env (LayerBlob (compress env reader)),
                       Size = size_of env (LayerBlob (compress env reader))\<rparr>],
                   Config := (Config (m_manifest mu))
                     \<lparr>Digest := digest_of env (ConfigJSON C1), Size := size_of env (ConfigJSON C1)\<rparr>\<rparr>"
      and "nd = \<lparr>MediaType = MediaTypeImageManifest, Digest = digest_of env (ManifestJSON M1),
                 Size = size_of env (ManifestJSON M1)\<rparr>"
      and "T = MutatorAddCall reader h # MutatorCommitCall #
               map PutBlobCall (pending mu @ [compress env reader])
               @ [PutBlobJSONCall (ConfigJSON C1), PutBlobJSONCall (ManifestJSON M1),
                  UpdateReferenceCall tagName nd]"
  | (ok) s1 C1 M1 nd where "r = Inr ()" and "s2 = s1\<lparr>refs := (refs s1)(tagName \<mapsto> nd)\<rparr>"
      and "refs s1 = refs s"
      and "s1 = snd (put env (ManifestJSON M1) (snd (put env (ConfigJSON C1)
                 (foldl (\<lambda>s b. snd (put env (LayerBlob b) s)) s
                    (pending mu @ [compress env reader])))))"
      and "stored s1 (digest_of env (ConfigJSON C1))" and "stored s1 (digest_of env (ManifestJSON M1))"
      and "C1 = (m_config mu)\<lparr>DiffIDs := DiffIDs (m_config mu) @ [digest_of env (LayerBlob reader)],
                               History := History (m_config mu) @ [h]\<rparr>"
      and "M1 = (m_manifest mu)
                  \<lparr>Layers := Layers (m_manifest mu) @
                     [\<lparr>MediaType = MediaTypeImageLayer,
                       Digest = digest_of env (LayerBlob (compress env reader)),
                       Size = size_of env (LayerBlob (compress env reader))\<rparr>],
                   Config := (Config (m_manifest mu))
                     \<lparr>Digest := digest_of env (ConfigJSON C1), Size := size_of env (ConfigJSON C1)\<rparr>\<rparr>"
      and "nd = \<lparr>MediaType = MediaTypeImageManifest, Digest = digest_of env (ManifestJSON M1),
                 Size = size_of env (ManifestJSON M1)\<rparr>"
      and "T = MutatorAddCall reader h # MutatorCommitCall #
               map PutBlobCall (pending mu @ [compress env reader])
               @ [PutBlobJSONCall (ConfigJSON C1), PutBlobJSONCall (ManifestJSON M1),
                  UpdateReferenceCall tagName nd]"
  using assms unfolding insert_commit_def
  by (cases r) (auto simp: op_iffs Add_iff Root_iff elim!: bindE_E Commit_E)


lemmas insert_elims = bindE_E deferE_E mutate_New_E insert_history_E insert_commit_E

lemma insert_run_not_found:
  assumes "insert_cmd env ctx s = (r, s', T)"
    and "Metadata ctx ''--image-path'' = Some imagePath"
    and "Metadata ctx ''--image-tag'' = Some tagName"
    and "io_error env (OpenCall imagePath) = None"
    and "io_error env (ResolveReferenceCall tagName) = None"
    and "resolve env s tagName = []"
  shows "r = Inl (Errorf (''tag not found: '' @ tagName)) \<and> s' = s
            \<and> T = [OpenCall imagePath, ResolveReferenceCall tagName, CloseCall]"
  using assms unfolding insert_cmd_stages
  by (auto simp: op_iffs elim!: bindE_E deferE_E cong: later_cong)

lemma insert_run_ambiguous:
  assumes "insert_cmd env ctx s = (r, s', T)"
    and "Metadata ctx ''--image-path'' = Some imagePath"
    and "Metadata ctx ''--image-tag'' = Some tagName"
    and "io_error env (OpenCall imagePath) = None"
    and "io_error env (ResolveReferenceCall tagName) = None"
    and "1 < length (resolve env s tagName)"
  shows "r = Inl (Errorf (''tag is ambiguous: '' @ tagName)) \<and> s' = s
            \<and> T = [OpenCall imagePath, ResolveReferenceCall tagName, CloseCall]"
  using assms unfolding insert_cmd_stages
  by (auto simp: op_iffs split: if_splits elim!: bindE_E deferE_E cong: later_cong)

lemma insert_run_New_call:
  assumes "insert_cmd env ctx s = (r, s', T)"
    and "Metadata ctx ''--image-tag'' = Some tagName"
    and "MutatorNewCall p \<in> set T"
  shows "resolve env s tagName = [p]"
  using assms unfolding insert_cmd_stages
  by (auto simp: op_iffs length_Suc_conv split: if_splits
      elim!: insert_elims cong: later_cong)

lemma insert_run_proceeds:
  assumes "insert_cmd env ctx s = (r, s', T)"
    and "Metadata ctx ''--image-path'' = Some imagePath"
    and "Metadata ctx ''--image-tag'' = Some tagName"
    and "io_error env (OpenCall imagePath) = None"
    and "io_error env (ResolveReferenceCall tagName) = None"
    and "resolve env s tagName = [p]"
  shows "MutatorNewCall p \<in> set T"
  using assms unfolding insert_cmd_stages
  by (auto simp: op_iffs elim!: insert_elims cong: later_cong)

lemma insert_run_Add_call:
  assumes "insert_cmd env ctx s = (r, s', T)"
    and "MutatorAddCall reader h \<in> set T"
  shows "EmptyLayer h = False
       \<and> CreatedBy h = (case Metadata ctx ''--history.created_by'' of
                          Some val \<Rightarrow> val | None \<Rightarrow> ''umoci insert'')
       \<and> (case Metadata ctx ''--history.created'' of
             None \<Rightarrow> Created h = Some (now env)
           | Some val \<Rightarrow> (\<exists>t. time_Parse env val = Inr t \<and> Created h = Some t))"
  using assms unfolding insert_cmd_stages
  by (auto simp: op_iffs split: if_splits elim!: insert_elims cong: later_cong)

lemma insert_run_unparsable:
  assumes "insert_cmd env ctx s = (r, s', T)"
    and "Metadata ctx ''--history.created'' = Some val"
    and "time_Parse env val = Inl e"
  shows "(\<exists>e'. r = Inl e') \<and> s' = s
       \<and> (\<forall>c \<in> set T. \<not> is_blob_write c \<and> \<not> is_ref_write c)
       \<and> (\<forall>reader h. MutatorAddCall reader h \<notin> set T)"
  using assms unfolding insert_cmd_stages
  by (auto simp: op_iffs split: if_splits elim!: insert_elims cong: later_cong)

lemma insert_run_failed:
  assumes "insert_cmd env ctx s = (Inl e, s', T)"
  shows "refs s' = refs s"
  using assms unfolding insert_cmd_stages
  by (auto simp: op_iffs split: if_splits elim!: insert_elims cong: later_cong)

lemma insert_run_success:
  assumes "insert_cmd env ctx s = (Inr (), s', T)"
  shows "\<exists>imagePath tagName d M0 C0 reader h C1 M1 nd.
           Metadata ctx ''--image-tag'' = Some tagName
         \<and> resolve env s tagName = [ [d] ]
         \<and> blobs s (Digest d) = Some (ManifestJSON M0)
         \<and> blobs s (Digest (Config M0)) = Some (ConfigJSON C0)
         \<and> C1 = C0\<lparr>DiffIDs := DiffIDs C0 @ [digest_of env (LayerBlob reader)],
                     History := History C0 @ [h]\<rparr>
         \<and> M1 = M0\<lparr>Layers := Layers M0 @
                       [\<lparr>MediaType = MediaTypeImageLayer,
                         Digest = digest_of env (LayerBlob (compress env reader)),
                         Size = size_of env (LayerBlob (compress env reader))\<rparr>],
                     Config := (Config M0)
                       \<lparr>Digest := digest_of env (ConfigJSON C1), Size := size_of env (ConfigJSON C1)\<rparr>\<rparr>
         \<and> nd = \<lparr>MediaType = MediaTypeImageManifest, Digest = digest_of env (ManifestJSON M1),
                   Size = size_of env (ManifestJSON M1)\<rparr>
         \<and> T = [OpenCall imagePath, ResolveReferenceCall tagName, MutatorNewCall [d],
                 FromDescriptorCall d, FromDescriptorCall (Config M0),
                 MutatorAddCall reader h, MutatorCommitCall, PutBlobCall (compress env reader),
                 PutBlobJSONCall (ConfigJSON C1), PutBlobJSONCall (ManifestJSON M1),
                 UpdateReferenceCall tagName nd, CloseCall]
         \<and> refs s' = (refs s)(tagName \<mapsto> nd)
         \<and> s' = (snd (put env (ManifestJSON M1) (snd (put env (ConfigJSON C1)
                    (snd (put env (LayerBlob (compress env reader)) s))))))
                  \<lparr>refs := (refs s)(tagName \<mapsto> nd)\<rparr>
         \<and> stored s' (digest_of env (LayerBlob (compress env reader)))
         \<and> stored s' (digest_of env (ConfigJSON C1)) \<and> stored s' (digest_of env (ManifestJSON M1))"
  using assms unfolding insert_cmd_stages
  by (auto simp: op_iffs length_Suc_conv stored_refs_update refs_put stored_put_new stored_put_mono
      split: if_splits elim!: insert_elims cong: later_cong)

lemma insert_keeps_counts_equal:
  assumes "insert_cmd env ctx s = (Inr (), s', T)"
  shows "\<exists>tagName d M0 C0 C1 M1.
           resolve env s tagName = [ [d] ]
         \<and> blobs s (Digest d) = Some (ManifestJSON M0)
         \<and> blobs s (Digest (Config M0)) = Some (ConfigJSON C0)
         \<and> written_configs T = [C1] \<and> written_manifests T = [M1]
         \<and> length (DiffIDs C1) = Suc (length (DiffIDs C0))
         \<and> length (Layers M1) = Suc (length (Layers M0))
         \<and> layer_entries C1 = Suc (layer_entries C0)"
proof -
  from insert_run_success[OF assms]
  obtain imagePath tagName d M0 C0 reader h C1 M1 nd where
    r: "resolve env s tagName = [ [d] ]"
      "blobs s (Digest d) = Some (ManifestJSON M0)"
      "blobs s (Digest (Config M0)) = Some (ConfigJSON C0)"
      "C1 = C0\<lparr>DiffIDs := DiffIDs C0 @ [digest_of env (LayerBlob reader)],
                     History := History C0 @ [h]\<rparr>"
      "M1 = M0\<lparr>Layers := Layers M0 @
                       [\<lparr>MediaType = MediaTypeImageLayer,
                         Digest = digest_of env (LayerBlob (compress env reader)),
                         Size = size_of env (LayerBlob (compress env reader))\<rparr>],
                     Config := (Config M0)
                       \<lparr>Digest := digest_of env (ConfigJSON C1), Size := size_of env (ConfigJSON C1)\<rparr>\<rparr>"
      "T = [OpenCall imagePath, ResolveReferenceCall tagName, MutatorNewCall [d],
                 FromDescriptorCall d, FromDescriptorCall (Config M0),
                 MutatorAddCall reader h, MutatorCommitCall, PutBlobCall (compress env reader),
                 PutBlobJSONCall (ConfigJSON C1), PutBlobJSONCall (ManifestJSON M1),
                 UpdateReferenceCall tagName nd, CloseCall]"
    by blast
  from r(6) have "MutatorAddCall reader h \<in> set T"
    by simp
  from insert_run_Add_call[OF assms this] have "\<not> EmptyLayer h"
    by simp
  with r have "resolve env s tagName = [ [d] ]
         \<and> blobs s (Digest d) = Some (ManifestJSON M0)
         \<and> blobs s (Digest (Config M0)) = Some (ConfigJSON C0)
         \<and> written_configs T = [C1] \<and> written_manifests T = [M1]
         \<and> length (DiffIDs C1) = Suc (length (DiffIDs C0))
         \<and> length (Layers M1) = Suc (length (Layers M0))
         \<and> layer_entries C1 = Suc (layer_entries C0)"
    by (simp add: layer_entries_def)
  then show ?thesis
    by blast
qed

lemma run_parts:
  assumes "x = (r, s', T)"
  shows "returned x = r" and "final x = s'" and "calls x = T"
  using assms by (simp_all add: returned_def final_def calls_def)

section \<open>What the specification says of the two commands\<close>

text \<open>
  C1. A mutation that fails partway leaves every reference pointing at its descriptor of
  before (or absent, for a new tag), and the tag update never leaves an existing name
  resolving to nothing. repack updates a tag by \<^verbatim>\<open>DeleteReference\<close> followed by
  \<^verbatim>\<open>PutReference\<close>: on the example store, retagging \<open>latest\<close> with a \<^verbatim>\<open>PutReference\<close> that
  meets an I/O failure returns that error and leaves \<open>latest\<close> resolving to nothing
  (\<open>repack_run_put_failed\<close> shows the same of every run in which that call fails).
  insert repoints with the single \<^verbatim>\<open>UpdateReference\<close>; \<open>insert_run_failed\<close> shows that
  its failures leave the references as they were, and \<open>repack_run_untagged\<close> the same
  for repack as long as the deletion has not been issued.
\<close>

theorem repack_loses_tag_when_PutReference_fails:
  "refs ex_store ''latest'' = Some ex_from
   \<and> returned (repack (ex_env_failing is_put_reference) (ex_ctx_tag ''latest'') ex_store)
       = Inl (IOError ''injected'')
   \<and> refs (final (repack (ex_env_failing is_put_reference) (ex_ctx_tag ''latest'') ex_store))
        ''latest'' = None"
  by code_simp

text \<open>
  C2. Every error of a CAS write or decode during repack is returned. The error of the
  last \<^verbatim>\<open>PutBlobJSON\<close>, the one that writes the manifest, is assigned at line 203 and
  never examined: when that write fails, repack returns success without the manifest
  being stored, and with a \<^verbatim>\<open>--tag\<close> it goes on to point the tag at the descriptor built
  from the values the failed call returned. (\<open>repack_run_checked_error\<close> shows that the
  error of every other call but the deferred \<^verbatim>\<open>Close\<close> is returned.)
\<close>

theorem repack_swallows_manifest_write_error:
  "io_error (ex_env_failing is_manifest_write) (PutBlobJSONCall (ManifestJSON ex_manifest1))
     = Some (IOError ''injected'')
   \<and> written_manifests (calls (repack (ex_env_failing is_manifest_write) ex_ctx ex_store))
       = [ex_manifest1]
   \<and> \<not> stored (final (repack (ex_env_failing is_manifest_write) ex_ctx ex_store))
         (ex_digest (ManifestJSON ex_manifest1))
   \<and> returned (repack (ex_env_failing is_manifest_write) ex_ctx ex_store) = Inr ()
   \<and> returned (repack (ex_env_failing is_manifest_write) (ex_ctx_tag ''new'') ex_store) = Inr ()
   \<and> refs (final (repack (ex_env_failing is_manifest_write) (ex_ctx_tag ''new'') ex_store)) ''new''
       = Some \<lparr>MediaType = MediaTypeImageManifest, Digest = [], Size = - 1\<rparr>"
  by code_simp

text \<open>
  C3. After a committed mutation the configuration has as many diffIDs as the manifest
  has layers and as the history has entries that stand for a layer. repack appends the
  diffID and the layer descriptor and no history entry: from an image with one of each
  it writes a configuration with two diffIDs and one such history entry, and a manifest
  with two layers (\<open>repack_run_counts\<close> shows the same of every successful run).
  insert passes a history entry with \<open>EmptyLayer = False\<close> to the mutator;
  \<open>insert_keeps_counts_equal\<close> shows that the three counts grow together there.
\<close>

theorem repack_leaves_history_behind:
  "length (DiffIDs ex_config0) = 1 \<and> length (Layers ex_manifest0) = 1
   \<and> layer_entries ex_config0 = 1
   \<and> returned (repack ex_env ex_ctx ex_store) = Inr ()
   \<and> map (\<lambda>c. (length (DiffIDs c), layer_entries c))
         (written_configs (calls (repack ex_env ex_ctx ex_store))) = [(2, 1)]
   \<and> map (\<lambda>m. length (Layers m))
         (written_manifests (calls (repack ex_env ex_ctx ex_store))) = [2]"
  by code_simp

text \<open>
  C4. One \<^verbatim>\<open>Add\<close> of a layer stream with history entry \<open>h\<close> followed by \<^verbatim>\<open>Commit\<close>, as
  insert performs them on the base image with manifest \<open>M0\<close> and configuration \<open>C0\<close>:
  the manifest written is \<open>M0\<close> with exactly the new layer's descriptor appended at the
  end of its layers (and the new configuration's digest and size), the configuration
  written is \<open>C0\<close> with exactly \<open>h\<close> appended at the end of its history (and the new
  diffID), the store left is the initial store with the layer, this configuration and
  this manifest put in this order, all three are stored there, and the tag is
  repointed at the new manifest. Every successful run of insert makes exactly the
  calls listed. (\<open>Add_then_Commit_run\<close> is the same statement for the three mutator
  operations alone, with any \<open>h\<close>.)
\<close>

theorem insert_appends_layer_and_history:
  assumes "returned (insert_cmd env ctx s) = Inr ()"
  shows "\<exists>imagePath tagName d M0 C0 reader h layerDescriptor C1 M1 nd.
           resolve env s tagName = [ [d] ]
         \<and> blobs s (Digest d) = Some (ManifestJSON M0)
         \<and> blobs s (Digest (Config M0)) = Some (ConfigJSON C0)
         \<and> calls (insert_cmd env ctx s) =
             [OpenCall imagePath, ResolveReferenceCall tagName, MutatorNewCall [d],
              FromDescriptorCall d, FromDescriptorCall (Config M0),
              MutatorAddCall reader h, MutatorCommitCall, PutBlobCall (compress env reader),
              PutBlobJSONCall (ConfigJSON C1), PutBlobJSONCall (ManifestJSON M1),
              UpdateReferenceCall tagName nd, CloseCall]
         \<and> layerDescriptor =
             \<lparr>MediaType = MediaTypeImageLayer,
              Digest = digest_of env (LayerBlob (compress env reader)),
              Size = size_of env (LayerBlob (compress env reader))\<rparr>
         \<and> Layers M1 = Layers M0 @ [layerDescriptor]
         \<and> History C1 = History C0 @ [h]
         \<and> DiffIDs C1 = DiffIDs C0 @ [digest_of env (LayerBlob reader)]
         \<and> Config M1 = (Config M0)\<lparr>Digest := digest_of env (ConfigJSON C1),
                                     Size := size_of env (ConfigJSON C1)\<rparr>
         \<and> nd = \<lparr>MediaType = MediaTypeImageManifest, Digest = digest_of env (ManifestJSON M1),
                   Size = size_of env (ManifestJSON M1)\<rparr>
         \<and> refs (final (insert_cmd env ctx s)) = (refs s)(tagName \<mapsto> nd)
         \<and> C1 = C0\<lparr>DiffIDs := DiffIDs C0 @ [digest_of env (LayerBlob reader)],
                     History := History C0 @ [h]\<rparr>
         \<and> M1 = M0\<lparr>Layers := Layers M0 @ [layerDescriptor],
                     Config := (Config M0)\<lparr>Digest := digest_of env (ConfigJSON C1),
                                            Size := size_of env (ConfigJSON C1)\<rparr>\<rparr>
         \<and> final (insert_cmd env ctx s) =
             (snd (put env (ManifestJSON M1) (snd (put env (ConfigJSON C1)
                (snd (put env (LayerBlob (compress env reader)) s))))))
             \<lparr>refs := (refs s)(tagName \<mapsto> nd)\<rparr>
         \<and> stored (final (insert_cmd env ctx s)) (digest_of env (LayerBlob (compress env reader)))
         \<and> stored (final (insert_cmd env ctx s)) (digest_of env (ConfigJSON C1))
         \<and> stored (final (insert_cmd env ctx s)) (digest_of env (ManifestJSON M1))"
proof -
  obtain r s' T where run: "insert_cmd env ctx s = (r, s', T)"
    by (cases "insert_cmd env ctx s")
  with assms have "insert_cmd env ctx s = (Inr (), s', T)"
    by (simp add: returned_def)
  from insert_run_success[OF this] show ?thesis
    unfolding run_parts[OF run]
    by (elim exE conjE, intro exI conjI) (assumption | simp)+
qed

theorem insert_appends_layer_and_history_witness:
  "returned (insert_cmd ex_env ex_ctx ex_store) = Inr ()
   \<and> (\<exists>M1 C1 h. written_manifests (calls (insert_cmd ex_env ex_ctx ex_store)) = [M1]
        \<and> written_configs (calls (insert_cmd ex_env ex_ctx ex_store)) = [C1]
        \<and> Layers M1 = Layers ex_manifest0 @
             [\<lparr>MediaType = MediaTypeImageLayer, Digest = ''L:gz:tar:/etc/motd'', Size = 1\<rparr>]
        \<and> History C1 = History ex_config0 @ [h]
        \<and> h = ex_history_insert \<and> C1 = ex_config2 \<and> M1 = ex_manifest2
        \<and> \<not> stored ex_store (ex_digest (LayerBlob ''gz:tar:/etc/motd''))
        \<and> \<not> stored ex_store (ex_digest (ConfigJSON C1))
        \<and> \<not> stored ex_store (ex_digest (ManifestJSON M1))
        \<and> blobs (final (insert_cmd ex_env ex_ctx ex_store))
             (ex_digest (LayerBlob ''gz:tar:/etc/motd'')) = Some (LayerBlob ''gz:tar:/etc/motd'')
        \<and> blobs (final (insert_cmd ex_env ex_ctx ex_store)) (ex_digest (ConfigJSON C1))
             = Some (ConfigJSON C1)
        \<and> blobs (final (insert_cmd ex_env ex_ctx ex_store)) (ex_digest (ManifestJSON M1))
             = Some (ManifestJSON M1)
        \<and> refs (final (insert_cmd ex_env ex_ctx ex_store)) ''latest''
             = Some \<lparr>MediaType = MediaTypeImageManifest, Digest = ex_digest (ManifestJSON M1),
                      Size = 1\<rparr>)"
proof -
  have a: "returned (insert_cmd ex_env ex_ctx ex_store) = Inr ()"
    by code_simp
  have b: "resolve ex_env ex_store n = [ [d] ] \<Longrightarrow> d = ex_from" for n d
    by (auto simp: ex_env_def ex_store_def split: if_splits)
  have c: "blobs ex_store (Digest ex_from) = Some (ManifestJSON M0) \<Longrightarrow> M0 = ex_manifest0" for M0
    by (simp add: ex_store_def ex_from_def)
  have d: "blobs ex_store (Digest (Config ex_manifest0)) = Some (ConfigJSON C0) \<Longrightarrow> C0 = ex_config0" for C0
    by (simp add: ex_store_def ex_manifest0_def split: if_splits)
  have e: "digest_of ex_env x = ex_digest x" and e': "compress ex_env y = ''gz:'' @ y"
    and f: "size_of ex_env x = 1" for x y
    by (simp_all add: ex_env_def)
  have g: "MutatorAddCall ''tar:/etc/motd'' ex_history_insert
      \<in> set (calls (insert_cmd ex_env ex_ctx ex_store))"
    by code_simp
  have before: "\<not> stored ex_store (ex_digest (LayerBlob ''gz:tar:/etc/motd''))"
    "\<not> stored ex_store (ex_digest (ConfigJSON ex_config2))"
    "\<not> stored ex_store (ex_digest (ManifestJSON ex_manifest2))"
    by code_simp+
  have after: "blobs (final (insert_cmd ex_env ex_ctx ex_store))
        (ex_digest (LayerBlob ''gz:tar:/etc/motd'')) = Some (LayerBlob ''gz:tar:/etc/motd'')"
    "blobs (final (insert_cmd ex_env ex_ctx ex_store)) (ex_digest (ConfigJSON ex_config2))
        = Some (ConfigJSON ex_config2)"
    "blobs (final (insert_cmd ex_env ex_ctx ex_store)) (ex_digest (ManifestJSON ex_manifest2))
        = Some (ManifestJSON ex_manifest2)"
    by code_simp+
  from insert_appends_layer_and_history [OF a]
  obtain imagePath tagName d M0 C0 reader h layerDescriptor C1 M1 nd where
    r: "resolve ex_env ex_store tagName = [ [d] ]"
      "blobs ex_store (Digest d) = Some (ManifestJSON M0)"
      "blobs ex_store (Digest (Config M0)) = Some (ConfigJSON C0)"
      "calls (insert_cmd ex_env ex_ctx ex_store) =
             [OpenCall imagePath, ResolveReferenceCall tagName, MutatorNewCall [d],
              FromDescriptorCall d, FromDescriptorCall (Config M0),
              MutatorAddCall reader h, MutatorCommitCall, PutBlobCall (compress ex_env reader),
              PutBlobJSONCall (ConfigJSON C1), PutBlobJSONCall (ManifestJSON M1),
              UpdateReferenceCall tagName nd, CloseCall]"
      "layerDescriptor =
             \<lparr>MediaType = MediaTypeImageLayer,
              Digest = digest_of ex_env (LayerBlob (compress ex_env reader)),
              Size = size_of ex_env (LayerBlob (compress ex_env reader))\<rparr>"
      "C1 = C0\<lparr>DiffIDs := DiffIDs C0 @ [digest_of ex_env (LayerBlob reader)],
                     History := History C0 @ [h]\<rparr>"
      "M1 = M0\<lparr>Layers := Layers M0 @ [layerDescriptor],
                     Config := (Config M0)\<lparr>Digest := digest_of ex_env (ConfigJSON C1),
                                            Size := size_of ex_env (ConfigJSON C1)\<rparr>\<rparr>"
      "nd = \<lparr>MediaType = MediaTypeImageManifest, Digest = digest_of ex_env (ManifestJSON M1),
                   Size = size_of ex_env (ManifestJSON M1)\<rparr>"
      "refs (final (insert_cmd ex_env ex_ctx ex_store)) = (refs ex_store)(tagName \<mapsto> nd)"
    by blast
  from r(1) have d0: "d = ex_from" by (rule b)
  with r(2) have m0: "M0 = ex_manifest0" by (simp add: c)
  with r(3) have c0: "C0 = ex_config0" by (simp add: d)
  from g r(4) have rd: "reader = ''tar:/etc/motd''" and h0: "h = ex_history_insert"
    by simp_all
  from r(1) d0 have tg: "tagName = ''latest''"
    by (auto simp: ex_env_def ex_store_def split: if_splits option.splits)
  from r(6) c0 rd h0 have c1: "C1 = ex_config2"
    by (simp add: e ex_config0_def ex_config2_def)
  from r(5,7) m0 c1 rd have m1: "M1 = ex_manifest2"
    by (simp add: e e' f ex_manifest0_def ex_manifest2_def)
  from r(4) have w: "written_manifests (calls (insert_cmd ex_env ex_ctx ex_store)) = [M1]"
    "written_configs (calls (insert_cmd ex_env ex_ctx ex_store)) = [C1]"
    by simp_all
  from r(9) r(8) tg have tag: "refs (final (insert_cmd ex_env ex_ctx ex_store)) ''latest''
      = Some \<lparr>MediaType = MediaTypeImageManifest, Digest = ex_digest (ManifestJSON M1), Size = 1\<rparr>"
    by (simp add: e f)
  have shape: "Layers ex_manifest2 = Layers ex_manifest0 @
             [\<lparr>MediaType = MediaTypeImageLayer, Digest = ''L:gz:tar:/etc/motd'', Size = 1\<rparr>]"
    "History ex_config2 = History ex_config0 @ [ex_history_insert]"
    by (simp_all add: ex_manifest2_def ex_manifest0_def ex_config2_def ex_config0_def)
  from a w tag shape before after c1 m1 h0 show ?thesis
    by simp
qed

text \<open>
  C5. A mutation that adds a layer writes the layer blob, then the new configuration
  (diffIDs and history extended), then the new manifest, which embeds the digest and
  size returned by the configuration write. repack writes the three blobs in that
  order, with the diffIDs and the layer list extended and the configuration's digest
  embedded, but the configuration it writes carries the history of the base unchanged
  (\<open>repack_run_success\<close> shows the same of every successful run).
\<close>

theorem repack_writes_config_without_history_entry:
  "filter is_blob_write (calls (repack ex_env ex_ctx ex_store))
     = [PutBlobCall ''gz:diff'', PutBlobJSONCall (ConfigJSON ex_config1),
        PutBlobJSONCall (ManifestJSON ex_manifest1)]
   \<and> DiffIDs ex_config1 = DiffIDs ex_config0 @ [ex_digest (LayerBlob ''gz:diff'')]
   \<and> History ex_config1 = History ex_config0
   \<and> Layers ex_manifest1 = Layers ex_manifest0 @
        [\<lparr>MediaType = MediaTypeImageLayer, Digest = ex_digest (LayerBlob ''gz:diff''), Size = 1\<rparr>]
   \<and> Digest (Config ex_manifest1) = ex_digest (ConfigJSON ex_config1)"
  by code_simp

text \<open>
  C6. insert and what \<^verbatim>\<open>ResolveReference\<close> returns for the tag: with no descriptor path
  it fails with the not-found error, with more than one it fails with the
  ambiguous-tag error, and in both cases the store is as before and the only calls
  made are Open, ResolveReference and Close; the mutator is created exactly when
  there is exactly one path, and for that path.
\<close>

theorem insert_resolve_reference:
  assumes "Metadata ctx ''--image-path'' = Some imagePath"
    and "Metadata ctx ''--image-tag'' = Some tagName"
    and "io_error env (OpenCall imagePath) = None"
    and "io_error env (ResolveReferenceCall tagName) = None"
  shows "(resolve env s tagName = [] \<longrightarrow>
            insert_cmd env ctx s =
              (Inl (Errorf (''tag not found: '' @ tagName)), s,
               [OpenCall imagePath, ResolveReferenceCall tagName, CloseCall]))
       \<and> (1 < length (resolve env s tagName) \<longrightarrow>
            insert_cmd env ctx s =
              (Inl (Errorf (''tag is ambiguous: '' @ tagName)), s,
               [OpenCall imagePath, ResolveReferenceCall tagName, CloseCall]))
       \<and> (\<forall>p. MutatorNewCall p \<in> set (calls (insert_cmd env ctx s))
                \<longleftrightarrow> resolve env s tagName = [p])"
proof -
  obtain r s' T where run: "insert_cmd env ctx s = (r, s', T)"
    by (cases "insert_cmd env ctx s")
  have none: "r = Inl (Errorf (''tag not found: '' @ tagName)) \<and> s' = s
      \<and> T = [OpenCall imagePath, ResolveReferenceCall tagName, CloseCall]"
    if "resolve env s tagName = []"
    using run assms that by (rule insert_run_not_found)
  have many: "r = Inl (Errorf (''tag is ambiguous: '' @ tagName)) \<and> s' = s
      \<and> T = [OpenCall imagePath, ResolveReferenceCall tagName, CloseCall]"
    if "1 < length (resolve env s tagName)"
    using run assms that by (rule insert_run_ambiguous)
  have only: "resolve env s tagName = [p]" if "MutatorNewCall p \<in> set T" for p
    using run assms(2) that by (rule insert_run_New_call)
  have one: "MutatorNewCall p \<in> set T" if "resolve env s tagName = [p]" for p
    using run assms that by (rule insert_run_proceeds)
  have 1: "resolve env s tagName = [] \<longrightarrow>
            insert_cmd env ctx s =
              (Inl (Errorf (''tag not found: '' @ tagName)), s,
               [OpenCall imagePath, ResolveReferenceCall tagName, CloseCall])"
    using none run by simp
  have 2: "1 < length (resolve env s tagName) \<longrightarrow>
            insert_cmd env ctx s =
              (Inl (Errorf (''tag is ambiguous: '' @ tagName)), s,
               [OpenCall imagePath, ResolveReferenceCall tagName, CloseCall])"
    using many run by simp
  have 3: "\<forall>p. MutatorNewCall p \<in> set (calls (insert_cmd env ctx s))
                \<longleftrightarrow> resolve env s tagName = [p]"
    unfolding run_parts[OF run] using only one by blast
  show ?thesis
    by (rule conjI[OF 1 conjI[OF 2 3] ])
qed

theorem insert_resolve_reference_witness:
  "Metadata ex_ctx ''--image-path'' = Some ''image''
   \<and> Metadata ex_ctx ''--image-tag'' = Some ''latest''
   \<and> io_error ex_env (OpenCall ''image'') = None
   \<and> io_error ex_env (ResolveReferenceCall ''latest'') = None
   \<and> resolve (ex_env\<lparr>resolve := (\<lambda>s n. [])\<rparr>) ex_store ''latest'' = []
   \<and> insert_cmd (ex_env\<lparr>resolve := (\<lambda>s n. [])\<rparr>) ex_ctx ex_store =
        (Inl (Errorf ''tag not found: latest''), ex_store,
         [OpenCall ''image'', ResolveReferenceCall ''latest'', CloseCall])
   \<and> 1 < length (resolve (ex_env\<lparr>resolve := (\<lambda>s n. [ [ex_from], [ex_from] ])\<rparr>) ex_store ''latest'')
   \<and> insert_cmd (ex_env\<lparr>resolve := (\<lambda>s n. [ [ex_from], [ex_from] ])\<rparr>) ex_ctx ex_store =
        (Inl (Errorf ''tag is ambiguous: latest''), ex_store,
         [OpenCall ''image'', ResolveReferenceCall ''latest'', CloseCall])
   \<and> resolve ex_env ex_store ''latest'' = [ [ex_from] ]
   \<and> MutatorNewCall [ex_from] \<in> set (calls (insert_cmd ex_env ex_ctx ex_store))"
proof -
  have a: "Metadata ex_ctx ''--image-path'' = Some ''image''"
    and b: "Metadata ex_ctx ''--image-tag'' = Some ''latest''"
    by (simp_all add: ex_ctx_def)
  have c: "io_error (ex_env\<lparr>resolve := f\<rparr>) x = None" and c': "io_error ex_env x = None" for f x
    by (simp_all add: ex_env_def)
  have d: "resolve ex_env ex_store ''latest'' = [ [ex_from] ]"
    by (simp add: ex_env_def ex_store_def)
  from insert_resolve_reference
      [where env = "ex_env\<lparr>resolve := (\<lambda>s n. [])\<rparr>" and s = ex_store, OF a b c c]
    insert_resolve_reference
      [where env = "ex_env\<lparr>resolve := (\<lambda>s n. [ [ex_from], [ex_from] ])\<rparr>" and s = ex_store, OF a b c c]
    insert_resolve_reference [where env = ex_env and s = ex_store, OF a b c' c']
    a b c' d
  show ?thesis
    by simp
qed



text \<open>
  C8. When \<^verbatim>\<open>--tag\<close> is empty, repack returns success after writing the layer, the
  configuration and the manifest, and changes no reference. No run with \<^verbatim>\<open>--tag\<close> empty
  changes a reference (\<open>repack_run_empty_tag\<close>), and success is returned only after the
  three writes have been issued in this order (\<open>repack_run_success\<close>); but the outcome
  of the manifest write is not examined (line 203), so when that write fails repack
  still returns success at line 223, with the manifest not stored.
\<close>

theorem repack_empty_tag_success_without_manifest:
  "String ex_ctx ''tag'' = []
   \<and> filter is_blob_write (calls (repack (ex_env_failing is_manifest_write) ex_ctx ex_store))
       = [PutBlobCall ''gz:diff'', PutBlobJSONCall (ConfigJSON ex_config1),
          PutBlobJSONCall (ManifestJSON ex_manifest1)]
   \<and> io_error (ex_env_failing is_manifest_write) (PutBlobJSONCall (ManifestJSON ex_manifest1))
       = Some (IOError ''injected'')
   \<and> returned (repack (ex_env_failing is_manifest_write) ex_ctx ex_store) = Inr ()
   \<and> stored (final (repack (ex_env_failing is_manifest_write) ex_ctx ex_store))
        (ex_digest (LayerBlob ''gz:diff''))
   \<and> stored (final (repack (ex_env_failing is_manifest_write) ex_ctx ex_store))
        (ex_digest (ConfigJSON ex_config1))
   \<and> \<not> stored (final (repack (ex_env_failing is_manifest_write) ex_ctx ex_store))
         (ex_digest (ManifestJSON ex_manifest1))
   \<and> refs (final (repack (ex_env_failing is_manifest_write) ex_ctx ex_store)) = refs ex_store"
proof -
  have tag: "String ex_ctx ''tag'' = []"
    by code_simp
  obtain r s' T where run: "repack (ex_env_failing is_manifest_write) ex_ctx ex_store = (r, s', T)"
    by (cases "repack (ex_env_failing is_manifest_write) ex_ctx ex_store")
  from tag run have "refs s' = refs ex_store"
    by (rule repack_run_empty_tag)
  then have frame:
    "refs (final (repack (ex_env_failing is_manifest_write) ex_ctx ex_store)) = refs ex_store"
    by (simp add: run_parts[OF run])
  have rest: "filter is_blob_write (calls (repack (ex_env_failing is_manifest_write) ex_ctx ex_store))
       = [PutBlobCall ''gz:diff'', PutBlobJSONCall (ConfigJSON ex_config1),
          PutBlobJSONCall (ManifestJSON ex_manifest1)]"
    "io_error (ex_env_failing is_manifest_write) (PutBlobJSONCall (ManifestJSON ex_manifest1))
       = Some (IOError ''injected'')"
    "returned (repack (ex_env_failing is_manifest_write) ex_ctx ex_store) = Inr ()"
    "stored (final (repack (ex_env_failing is_manifest_write) ex_ctx ex_store))
        (ex_digest (LayerBlob ''gz:diff''))"
    "stored (final (repack (ex_env_failing is_manifest_write) ex_ctx ex_store))
        (ex_digest (ConfigJSON ex_config1))"
    "\<not> stored (final (repack (ex_env_failing is_manifest_write) ex_ctx ex_store))
         (ex_digest (ManifestJSON ex_manifest1))"
    by code_simp+
  from tag rest frame show ?thesis
    by (intro conjI)
qed

text \<open>
  C9. When the \<^verbatim>\<open>--image\<close>, \<^verbatim>\<open>--bundle\<close> or \<^verbatim>\<open>--from\<close> flag is the empty string,
  repack returns an error without making any call to the CAS engine (in particular
  the engine is never opened), so the store, blobs and references, is as it was.
\<close>

theorem repack_mandatory_flags:
  assumes "String ctx ''image'' = [] \<or> String ctx ''bundle'' = [] \<or> String ctx ''from'' = []"
  shows "\<exists>e. repack env ctx s = (Inl e, s, [])"
  using assms by (auto simp: repack_def throwE_def Let_def)

theorem repack_mandatory_flags_witness:
  "String (ex_ctx\<lparr>flags := (flags ex_ctx)(''bundle'' := [])\<rparr>) ''bundle'' = []
   \<and> (\<exists>e. repack ex_env (ex_ctx\<lparr>flags := (flags ex_ctx)(''bundle'' := [])\<rparr>) ex_store
            = (Inl e, ex_store, []))"
  using repack_mandatory_flags [of "ex_ctx\<lparr>flags := (flags ex_ctx)(''bundle'' := [])\<rparr>" ex_env ex_store]
  by (simp add: String_def)

text \<open>
  C10. The history entry that insert passes to \<^verbatim>\<open>Mutator.Add\<close> has \<open>EmptyLayer = False\<close>;
  its \<open>CreatedBy\<close> is \<open>umoci insert\<close> unless \<^verbatim>\<open>--history.created_by\<close> is set, and its
  \<open>Created\<close> is the invocation time unless \<^verbatim>\<open>--history.created\<close> is set, in which case
  it is the parsed value. When that value cannot be parsed, insert returns an error,
  \<^verbatim>\<open>Add\<close> is never called, no blob or reference is written and the store is as before.
\<close>

theorem insert_history_entry:
  "(MutatorAddCall reader h \<in> set (calls (insert_cmd env ctx s)) \<longrightarrow>
      EmptyLayer h = False
    \<and> CreatedBy h = (case Metadata ctx ''--history.created_by'' of
                       Some val \<Rightarrow> val | None \<Rightarrow> ''umoci insert'')
    \<and> (case Metadata ctx ''--history.created'' of
          None \<Rightarrow> Created h = Some (now env)
        | Some val \<Rightarrow> (\<exists>t. time_Parse env val = Inr t \<and> Created h = Some t)))
   \<and> (Metadata ctx ''--history.created'' = Some val \<and> time_Parse env val = Inl e \<longrightarrow>
        (\<exists>e'. returned (insert_cmd env ctx s) = Inl e')
      \<and> final (insert_cmd env ctx s) = s
      \<and> (\<forall>c \<in> set (calls (insert_cmd env ctx s)). \<not> is_blob_write c \<and> \<not> is_ref_write c)
      \<and> (\<forall>rd h'. MutatorAddCall rd h' \<notin> set (calls (insert_cmd env ctx s))))"
proof -
  obtain r s' T where run: "insert_cmd env ctx s = (r, s', T)"
    by (cases "insert_cmd env ctx s")
  note entry = insert_run_Add_call[OF run]
  note unparsable = insert_run_unparsable[OF run]
  from entry unparsable show ?thesis
    unfolding run_parts[OF run] by blast
qed

theorem insert_history_entry_witness:
  "MutatorAddCall ''tar:/etc/motd'' ex_history_insert
      \<in> set (calls (insert_cmd ex_env ex_ctx ex_store))
   \<and> EmptyLayer ex_history_insert = False
   \<and> Metadata ex_ctx ''--history.created_by'' = None
   \<and> CreatedBy ex_history_insert = ''umoci insert''
   \<and> Metadata ex_ctx ''--history.created'' = None
   \<and> Created ex_history_insert = Some (now ex_env)
   \<and> Metadata ex_ctx_history ''--history.created_by'' = Some ''me''
   \<and> Metadata ex_ctx_history ''--history.created'' = Some ''2016-12-31T23:59:59Z''
   \<and> time_Parse ex_env ''2016-12-31T23:59:59Z'' = Inr 42
   \<and> returned (insert_cmd ex_env ex_ctx_history ex_store) = Inr ()
   \<and> (\<exists>h. MutatorAddCall ''tar:/etc/motd'' h \<in> set (calls (insert_cmd ex_env ex_ctx_history ex_store))
          \<and> EmptyLayer h = False \<and> CreatedBy h = ''me'' \<and> Created h = Some 42)
   \<and> Metadata (ex_ctx\<lparr>Metadata := (Metadata ex_ctx)(''--history.created'' \<mapsto> ''yesterday'')\<rparr>)
        ''--history.created'' = Some ''yesterday''
   \<and> time_Parse ex_env ''yesterday'' = Inl (Errorf ''cannot parse'')
   \<and> returned (insert_cmd ex_env
        (ex_ctx\<lparr>Metadata := (Metadata ex_ctx)(''--history.created'' \<mapsto> ''yesterday'')\<rparr>) ex_store)
       = Inl (Wrap (Errorf ''cannot parse'') ''parsing --history.created'')
   \<and> final (insert_cmd ex_env
        (ex_ctx\<lparr>Metadata := (Metadata ex_ctx)(''--history.created'' \<mapsto> ''yesterday'')\<rparr>) ex_store) = ex_store
   \<and> (\<forall>rd h. MutatorAddCall rd h \<notin> set (calls (insert_cmd ex_env
        (ex_ctx\<lparr>Metadata := (Metadata ex_ctx)(''--history.created'' \<mapsto> ''yesterday'')\<rparr>) ex_store)))"
proof -
  have a: "MutatorAddCall ''tar:/etc/motd'' ex_history_insert
      \<in> set (calls (insert_cmd ex_env ex_ctx ex_store))"
    by code_simp
  have b: "Metadata ex_ctx ''--history.created_by'' = None"
    and c: "Metadata ex_ctx ''--history.created'' = None"
    and d: "Metadata (ex_ctx\<lparr>Metadata := (Metadata ex_ctx)(''--history.created'' \<mapsto> ''yesterday'')\<rparr>)
        ''--history.created'' = Some ''yesterday''"
    and b': "Metadata ex_ctx_history ''--history.created_by'' = Some ''me''"
    and c': "Metadata ex_ctx_history ''--history.created'' = Some ''2016-12-31T23:59:59Z''"
    by (simp_all add: ex_ctx_def ex_ctx_history_def)
  have e: "time_Parse ex_env ''yesterday'' = Inl (Errorf ''cannot parse'')"
    and e': "time_Parse ex_env ''2016-12-31T23:59:59Z'' = Inr 42"
    by (simp_all add: ex_env_def)
  have ok: "returned (insert_cmd ex_env ex_ctx_history ex_store) = Inr ()"
    by code_simp
  have a': "MutatorAddCall ''tar:/etc/motd''
      \<lparr>Created = Some 42, CreatedBy = ''me'', Author = [], Comment = [], EmptyLayer = False\<rparr>
      \<in> set (calls (insert_cmd ex_env ex_ctx_history ex_store))"
    by code_simp
  have err: "returned (insert_cmd ex_env
        (ex_ctx\<lparr>Metadata := (Metadata ex_ctx)(''--history.created'' \<mapsto> ''yesterday'')\<rparr>) ex_store)
       = Inl (Wrap (Errorf ''cannot parse'') ''parsing --history.created'')"
    by code_simp
  note default = insert_history_entry
    [of "''tar:/etc/motd''" ex_history_insert ex_env ex_ctx ex_store "''x''" "Errorf ''x''"]
  note overridden = insert_history_entry
    [of "''tar:/etc/motd''"
      "\<lparr>Created = Some 42, CreatedBy = ''me'', Author = [], Comment = [], EmptyLayer = False\<rparr>"
      ex_env ex_ctx_history ex_store "''x''" "Errorf ''x''"]
  note unparsable = insert_history_entry
    [of "''tar:/etc/motd''" ex_history_insert ex_env
      "ex_ctx\<lparr>Metadata := (Metadata ex_ctx)(''--history.created'' \<mapsto> ''yesterday'')\<rparr>" ex_store
      "''yesterday''" "Errorf ''cannot parse''"]
  from default a b c have 1: "EmptyLayer ex_history_insert = False
      \<and> CreatedBy ex_history_insert = ''umoci insert''
      \<and> Created ex_history_insert = Some (now ex_env)"
    by simp
  from overridden a' b' c' e' have 2:
    "\<exists>h. MutatorAddCall ''tar:/etc/motd'' h \<in> set (calls (insert_cmd ex_env ex_ctx_history ex_store))
          \<and> EmptyLayer h = False \<and> CreatedBy h = ''me'' \<and> Created h = Some 42"
    by (intro exI[of _ "\<lparr>Created = Some 42, CreatedBy = ''me'', Author = [], Comment = [],
        EmptyLayer = False\<rparr>"]) simp
  from unparsable d e have 3: "final (insert_cmd ex_env
        (ex_ctx\<lparr>Metadata := (Metadata ex_ctx)(''--history.created'' \<mapsto> ''yesterday'')\<rparr>) ex_store) = ex_store
      \<and> (\<forall>rd h. MutatorAddCall rd h \<notin> set (calls (insert_cmd ex_env
        (ex_ctx\<lparr>Metadata := (Metadata ex_ctx)(''--history.created'' \<mapsto> ''yesterday'')\<rparr>) ex_store)))"
    by blast
  from a b c b' c' e' ok d e err 1 2 3 show ?thesis
    by (intro conjI) (simp_all only: simp_thms)
qed

end
